theory Spec2Isabelle
  imports Complex_Main "HOL-Library.Word" "HOL-Library.AList"
begin

section \<open>The image request of the image handler (image-request.js)\<close>

text \<open>
  A shallow embedding of the class \<open>ImageRequest\<close>. JavaScript strings are modelled as
  \<open>string\<close>, one \<open>char\<close> per code unit (so the model covers strings of code units below
  256); a thrown exception is the \<open>Inl\<close> of a sum; \<open>undefined\<close> is \<open>None\<close>.
\<close>

subsection \<open>Constants of ./lib\<close>

text \<open>
  Modelled from the spec: the module \<open>./lib\<close> (StatusCodes, RequestTypes,
  ImageFormatTypes, ImageHandlerError) is not among the sources. The spec names the
  statuses bad request, forbidden, not found and internal server error, the dialects
  Default, Thumbor and Custom, and the encodings jpeg, png, webp, tiff and heif.
\<close>

datatype StatusCodes = BAD_REQUEST | FORBIDDEN | NOT_FOUND | INTERNAL_SERVER_ERROR

datatype RequestTypes = DEFAULT | THUMBOR | CUSTOM

definition JPEG :: string where "JPEG = ''jpeg''"
definition PNG :: string where "PNG = ''png''"
definition WEBP :: string where "WEBP = ''webp''"
definition TIFF :: string where "TIFF = ''tiff''"
definition HEIF :: string where "HEIF = ''heif''"

subsection \<open>Thrown values\<close>

text \<open>
  \<open>ImageHandlerError status code message\<close> is the handler's own error; its code and
  message may be \<open>undefined\<close> when they are copied from another error. \<open>ServiceError\<close> is
  a rejection by a collaborator (object store, secret provider, path mapper) with the
  \<open>code\<close> and \<open>message\<close> properties it carries. The other three are thrown by the
  runtime itself; a \<open>TypeError\<close> of Node's own library carries a \<open>code\<close>, one of the
  language (a property read of \<open>undefined\<close>, a call of what is no function) none. Their
  message texts are the engine's and are not modelled.
\<close>

datatype js_error =
    ImageHandlerError StatusCodes "string option" "string option"
  | ServiceError "string option" "string option"
  | TypeError "string option"
  | SyntaxError
  | URIError

fun error_code :: "js_error \<Rightarrow> string option" where
  "error_code (ImageHandlerError s c m) = c"
| "error_code (ServiceError c m) = c"
| "error_code (TypeError c) = c"
| "error_code e = None"

fun error_message :: "js_error \<Rightarrow> string option" where
  "error_message (ImageHandlerError s c m) = m"
| "error_message (ServiceError c m) = m"
| "error_message e = None"

subsection \<open>inferImageType\<close>

type_synonym byte = "8 word"

definition hex_digit :: "nat \<Rightarrow> char" where
  "hex_digit n = ''0123456789abcdef'' ! n"

text \<open>\<open>buffer.toString('hex')\<close>: two lower-case digits per byte.\<close>

definition hex_of_byte :: "byte \<Rightarrow> string" where
  "hex_of_byte b = [hex_digit (unat b div 16), hex_digit (unat b mod 16)]"

definition toString_hex :: "byte list \<Rightarrow> string" where
  "toString_hex bs = concat (map hex_of_byte bs)"

text \<open>\<open>toUpperCase\<close>, on the letters a to z (it is applied to hex digits only).\<close>

definition upper_char :: "char \<Rightarrow> char" where
  "upper_char c =
     (case map_of (zip ''abcdefghijklmnopqrstuvwxyz'' ''ABCDEFGHIJKLMNOPQRSTUVWXYZ'') c of
        None \<Rightarrow> c
      | Some u \<Rightarrow> u)"

definition toUpperCase :: "string \<Rightarrow> string" where
  "toUpperCase s = map upper_char s"

definition msg_cannot_infer :: string where
  "msg_cannot_infer = ''The file does not have an extension and the file type could not be inferred. Please ensure that your original image is of a supported file type (jpg, png, tiff, webp, svg). Refer to the documentation for additional guidance on forming image requests.''"

definition inferImageType :: "byte list \<Rightarrow> js_error + string" where
  "inferImageType imageBuffer =
     (let imageSignature = toUpperCase (toString_hex (take 4 imageBuffer)) in
      if imageSignature = ''89504E47'' then Inr ''image/png''
      else if imageSignature = ''FFD8FFDB'' \<or> imageSignature = ''FFD8FFE0''
            \<or> imageSignature = ''FFD8FFEE'' \<or> imageSignature = ''FFD8FFE1''
        then Inr ''image/jpeg''
      else if imageSignature = ''52494646'' then Inr ''image/webp''
      else if imageSignature = ''49492A00'' then Inr ''image/tiff''
      else if imageSignature = ''4D4D002A'' then Inr ''image/tiff''
      else Inl (ImageHandlerError INTERNAL_SERVER_ERROR (Some ''RequestTypeError'')
                  (Some msg_cannot_infer)))"

subsection \<open>JavaScript values\<close>

text \<open>
  A number is a double: its finite values are modelled as reals (\<open>Math.trunc\<close> and the
  comparisons with 0 and 6 are exact on doubles), beside NaN and the two infinities.
\<close>

datatype jsnumber = Finite real | NaN | PosInfinity | NegInfinity

text \<open>
  What \<open>JSON.parse\<close> returns. An object lists its own properties in the order
  \<open>Object.keys\<close> enumerates them, each key once.
\<close>

datatype json =
    JNull
  | JBool bool
  | JNum jsnumber
  | JStr string
  | JArr "json list"
  | JObj "(string \<times> json) list"

fun truthy :: "json option \<Rightarrow> bool" where
  "truthy None = False"
| "truthy (Some JNull) = False"
| "truthy (Some (JBool b)) = b"
| "truthy (Some (JNum (Finite r))) = (r \<noteq> 0)"
| "truthy (Some (JNum NaN)) = False"
| "truthy (Some (JNum PosInfinity)) = True"
| "truthy (Some (JNum NegInfinity)) = True"
| "truthy (Some (JStr s)) = (s \<noteq> [])"
| "truthy (Some (JArr xs)) = True"
| "truthy (Some (JObj kvs)) = True"

subsection \<open>Event, configuration and collaborators\<close>

text \<open>
  The request event: its path is a string, its headers and its query-string parameters
  map names to strings; the parameters may be missing altogether.
\<close>

record event =
  path :: string
  headers :: "string \<Rightarrow> string option"
  queryStringParameters :: "(string \<Rightarrow> string option) option"

text \<open>\<open>process.env\<close>: a variable is a string or \<open>undefined\<close>.\<close>

record environment =
  SOURCE_BUCKETS :: "string option"
  DEFAULT_FALLBACK_IMAGE_BUCKET :: "string option"
  REWRITE_MATCH_PATTERN :: "string option"
  REWRITE_SUBSTITUTION :: "string option"
  AUTO_WEBP :: "string option"
  ENABLE_SIGNATURE :: "string option"
  SECRETS_MANAGER :: "string option"
  SECRET_KEY :: "string option"

text \<open>What \<open>s3Client.getObject(...).promise()\<close> resolves to; a date is in milliseconds.\<close>

record s3_object =
  Body :: "byte list"
  ContentType :: "string option"
  Expires :: "int option"
  LastModified :: "int option"
  CacheControl :: "string option"

text \<open>
  The language runtime, Node's library and the injected collaborators, none of them code
  of this repository, are parameters of the model:
  \<^item> \<open>base64_utf8 s\<close> is \<open>Buffer.from(s, 'base64').toString()\<close>;
  \<^item> \<open>JSON_parse s\<close> is \<open>JSON.parse(s)\<close>, \<open>None\<close> when it throws;
  \<^item> \<open>matchThumbor_test p\<close> is the verdict of the regular-expression engine on the
    pattern \<open>matchThumbor\<close> of \<open>parseRequestType\<close>;
  \<^item> \<open>RegExp_replace source flags subject replacement\<close> is
    \<open>subject.replace(new RegExp(source, flags), replacement)\<close>;
  \<^item> \<open>RegExp_match source subject\<close> tells whether \<open>subject.match(new RegExp(source))\<close>
    is a match;
  \<^item> \<open>String_replace subject search replacement\<close> is \<open>subject.replace(search, replacement)\<close>
    for a string \<open>search\<close>;
  \<^item> \<open>strip_edits p\<close> is \<open>p.replace(R, '')\<close> for the global pattern \<open>R\<close> of
    \<open>parseImageKey\<close> that removes the crop, resize, filter and fit-in tokens and the
    leading slashes;
  \<^item> \<open>member v k\<close> is the property \<open>k\<close> of a value \<open>v\<close> that is no object (a number, a
    boolean, a string or an array);
  \<^item> \<open>ToNumber\<close> and \<open>ToString\<close> are the coercions of a string, an array or an object to
    a number, and of a value that is no string to a string;
  \<^item> \<open>hmac_sha256_hex key data\<close> is
    \<open>createHmac('sha256', key).update(data).digest('hex')\<close>;
  \<^item> \<open>toUTCString d\<close> is \<open>new Date(d).toUTCString()\<close>;
  \<^item> \<open>getSecret\<close> is the secret provider, \<open>getObject n bucket key\<close> the object store's
    answer to the request for \<open>{Bucket: bucket, Key: key}\<close> made after \<open>n\<close> earlier
    requests (the store may answer the same request differently each time);
  \<^item> \<open>mapPathToEdits\<close> and \<open>parseCustomPath\<close> are the methods of \<open>ThumborMapper\<close>
    (\<open>./thumbor-mapper\<close>, not among the sources).
\<close>

record runtime =
  base64_utf8 :: "string \<Rightarrow> string"
  JSON_parse :: "string \<Rightarrow> json option"
  matchThumbor_test :: "string \<Rightarrow> bool"
  RegExp_replace :: "string \<Rightarrow> string \<Rightarrow> string \<Rightarrow> string \<Rightarrow> js_error + string"
  RegExp_match :: "string \<Rightarrow> string \<Rightarrow> js_error + bool"
  String_replace :: "string \<Rightarrow> string \<Rightarrow> string \<Rightarrow> string"
  strip_edits :: "string \<Rightarrow> string"
  decodeURIComponent :: "string \<Rightarrow> js_error + string"
  member :: "json \<Rightarrow> string \<Rightarrow> json option"
  ToNumber :: "json \<Rightarrow> jsnumber"
  ToString :: "json \<Rightarrow> string"
  hmac_sha256_hex :: "string \<Rightarrow> string \<Rightarrow> string"
  toUTCString :: "int \<Rightarrow> string"
  getSecret :: "string option \<Rightarrow> js_error + string"
  getObject :: "nat \<Rightarrow> string option \<Rightarrow> json option \<Rightarrow> js_error + s3_object"
  mapPathToEdits :: "string \<Rightarrow> js_error + (string \<times> json) list"
  parseCustomPath :: "string \<Rightarrow> js_error + string"

text \<open>Sequencing of steps that may throw.\<close>

definition and_then :: "js_error + 'a \<Rightarrow> ('a \<Rightarrow> js_error + 'b) \<Rightarrow> js_error + 'b" where
  "and_then m f = (case m of Inl e \<Rightarrow> Inl e | Inr x \<Rightarrow> f x)"

text \<open>
  Reading a property: a \<open>TypeError\<close> on \<open>undefined\<close> and \<open>null\<close>, the own property of an
  object (the names the handler reads are no members of \<open>Object.prototype\<close>; an inherited
  member is a function or an object, and the one place that reads a configured name
  accepts a string only).
\<close>

fun lookup :: "runtime \<Rightarrow> json \<Rightarrow> string \<Rightarrow> json option" where
  "lookup rt (JObj kvs) k = map_of kvs k"
| "lookup rt v k = member rt v k"

fun get_prop :: "runtime \<Rightarrow> json option \<Rightarrow> string \<Rightarrow> js_error + json option" where
  "get_prop rt None k = Inl (TypeError None)"
| "get_prop rt (Some JNull) k = Inl (TypeError None)"
| "get_prop rt (Some v) k = Inr (lookup rt v k)"

text \<open>A value inside a template literal or as a string argument.\<close>

fun template :: "runtime \<Rightarrow> json option \<Rightarrow> string" where
  "template rt None = ''undefined''"
| "template rt (Some (JStr s)) = s"
| "template rt (Some v) = ToString rt v"

subsection \<open>Strings\<close>

fun starts_with :: "string \<Rightarrow> string \<Rightarrow> bool" where
  "starts_with s [] = True"
| "starts_with [] (c # t) = False"
| "starts_with (d # s) (c # t) = (d = c \<and> starts_with s t)"

text \<open>\<open>s.includes(t)\<close>.\<close>

fun str_includes :: "string \<Rightarrow> string \<Rightarrow> bool" where
  "str_includes [] t = (t = [])"
| "str_includes (c # s) t = (starts_with (c # s) t \<or> str_includes s t)"

text \<open>
  \<open>s.split(sep)\<close> for a separator of one character. The result is never empty, so
  the first case below does not occur.
\<close>

fun split :: "char \<Rightarrow> string \<Rightarrow> string list" where
  "split sep [] = [[]]"
| "split sep (c # s) =
     (if c = sep then [] # split sep s
      else (case split sep s of
              [] \<Rightarrow> [[c]]
            | piece # pieces \<Rightarrow> (c # piece) # pieces))"

text \<open>\<open>s.slice(start, end)\<close>: a negative index counts from the end.\<close>

definition slice :: "string \<Rightarrow> int \<Rightarrow> int \<Rightarrow> string" where
  "slice s start stop =
     (let len = int (length s);
          lo = (if start < 0 then max (len + start) 0 else min start len);
          hi = (if stop < 0 then max (len + stop) 0 else min stop len)
      in take (nat (hi - lo)) (drop (nat lo) s))"

text \<open>\<open>s.lastIndexOf(c)\<close>: \<open>-1\<close> when \<open>c\<close> does not occur.\<close>

definition lastIndexOf :: "string \<Rightarrow> char \<Rightarrow> int" where
  "lastIndexOf s c =
     (if c \<in> set s then int (length s) - 1 - int (length (takeWhile (\<lambda>x. x \<noteq> c) (rev s)))
      else - 1)"

text \<open>\<open>s.substring(0, stop)\<close>: a negative \<open>stop\<close> counts as 0.\<close>

definition substring0 :: "string \<Rightarrow> int \<Rightarrow> string" where
  "substring0 s stop = take (nat stop) s"

subsection \<open>decodeRequest and parseRequestType\<close>

definition msg_cannot_decode :: string where
  "msg_cannot_decode = ''The image request you provided could not be decoded. Please check that your request is base64 encoded properly and refer to the documentation for additional guidance.''"

definition msg_cannot_read_path :: string where
  "msg_cannot_read_path = ''The URL path you provided could not be read. Please ensure that it is properly formed according to the solution documentation.''"

definition msg_request_type :: string where
  "msg_request_type = ''The type of request you are making could not be processed. Please ensure that your original image is of a supported file type (jpg, png, tiff, webp, svg) and that your image request is provided in the correct syntax. Refer to the documentation for additional guidance on forming image requests.''"

definition decodeRequest :: "runtime \<Rightarrow> event \<Rightarrow> js_error + json" where
  "decodeRequest rt ev =
     (case path ev of
        [] \<Rightarrow> Inl (ImageHandlerError BAD_REQUEST (Some ''DecodeRequest::CannotReadPath'')
                 (Some msg_cannot_read_path))
      | c # rest \<Rightarrow>
          (let encoded = (if c = CHR ''/'' then rest else c # rest) in
           case JSON_parse rt (base64_utf8 rt encoded) of
             Some decoded \<Rightarrow> Inr decoded
           | None \<Rightarrow> Inl (ImageHandlerError BAD_REQUEST
                        (Some ''DecodeRequest::CannotDecodeRequest'') (Some msg_cannot_decode))))"

definition base64_char :: "char \<Rightarrow> bool" where
  "base64_char c =
     (c \<in> set ''0123456789abcdefghijklmnopqrstuvwxyzABCDEFGHIJKLMNOPQRSTUVWXYZ+/'')"

text \<open>
  The language of \<open>([0-9a-zA-Z+/]{4})*(([0-9a-zA-Z+/]{2}==)|([0-9a-zA-Z+/]{3}=))?$\<close>:
  groups of four characters of the alphabet, the last one possibly padded.
\<close>

fun base64_groups :: "string \<Rightarrow> bool" where
  "base64_groups [] = True"
| "base64_groups [a, b, c, d] =
     (base64_char a \<and> base64_char b \<and>
      ((base64_char c \<and> base64_char d) \<or> (c = CHR ''='' \<and> d = CHR ''='')
       \<or> (base64_char c \<and> d = CHR ''='')))"
| "base64_groups (a # b # c # d # rest) =
     (base64_char a \<and> base64_char b \<and> base64_char c \<and> base64_char d \<and> base64_groups rest)"
| "base64_groups s = False"

text \<open>\<open>matchDefault.test(path)\<close>: the optional leading slash \<open>^(\/?)\<close>, then the groups.\<close>

definition matchDefault_test :: "string \<Rightarrow> bool" where
  "matchDefault_test p =
     (base64_groups p \<or> (case p of [] \<Rightarrow> False | c # rest \<Rightarrow> c = CHR ''/'' \<and> base64_groups rest))"

definition parseRequestType :: "runtime \<Rightarrow> environment \<Rightarrow> event \<Rightarrow> js_error + RequestTypes" where
  "parseRequestType rt env ev =
     (let definedEnvironmentVariables =
            (REWRITE_MATCH_PATTERN env \<noteq> Some [] \<and> REWRITE_SUBSTITUTION env \<noteq> Some [] \<and>
             REWRITE_MATCH_PATTERN env \<noteq> None \<and> REWRITE_SUBSTITUTION env \<noteq> None);
          isBase64Encoded = (case decodeRequest rt ev of Inr decoded \<Rightarrow> True | Inl error \<Rightarrow> False)
      in if matchDefault_test (path ev) \<and> isBase64Encoded then Inr DEFAULT
         else if definedEnvironmentVariables then Inr CUSTOM
         else if matchThumbor_test rt (path ev) then Inr THUMBOR
         else Inl (ImageHandlerError BAD_REQUEST (Some ''RequestTypeError'')
                     (Some msg_request_type)))"

subsection \<open>The source buckets\<close>

definition msg_no_source_buckets :: string where
  "msg_no_source_buckets = ''The SOURCE_BUCKETS variable could not be read. Please check that it is not empty and contains at least one source bucket, or multiple buckets separated by commas. Spaces can be provided between commas and bucket names, these will be automatically parsed out when decoding.''"

definition msg_cannot_access_bucket :: string where
  "msg_cannot_access_bucket = ''The bucket you specified could not be accessed. Please check that the bucket is specified in your SOURCE_BUCKETS.''"

definition msg_cannot_find_bucket :: string where
  "msg_cannot_find_bucket = ''The bucket you specified could not be found. Please check the spelling of the bucket name in your request.''"

text \<open>The class \<open>\s\<close> among the code units below 256: tab to carriage return, space, no-break space.\<close>

definition is_whitespace :: "char \<Rightarrow> bool" where
  "is_whitespace c = ((of_char c :: nat) \<in> set [9, 10, 11, 12, 13, 32, 160])"

definition getAllowedSourceBuckets :: "environment \<Rightarrow> js_error + string list" where
  "getAllowedSourceBuckets env =
     (case SOURCE_BUCKETS env of
        None \<Rightarrow> Inl (ImageHandlerError BAD_REQUEST
                   (Some ''GetAllowedSourceBuckets::NoSourceBuckets'') (Some msg_no_source_buckets))
      | Some s \<Rightarrow> Inr (split (CHR '','') (filter (\<lambda>c. \<not> is_whitespace c) s)))"

text \<open>The \<open>forEach\<close> assigns at every element that includes the target.\<close>

definition checkImageBucket :: "environment \<Rightarrow> string list \<Rightarrow> string \<Rightarrow> string option" where
  "checkImageBucket env sourceBuckets targetBucket =
     foldl (\<lambda>find_bucket_name currentElement.
              if str_includes currentElement targetBucket then Some currentElement
              else find_bucket_name)
       (DEFAULT_FALLBACK_IMAGE_BUCKET env) sourceBuckets"

text \<open>
  \<open>request.bucket.match(new RegExp('^' + sourceBuckets[0] + '$'))\<close>. Where the first
  source bucket is written with ordinary characters and the wildcard \<open>.\<close> only, the match
  is written out: equal lengths, and at each place the same character, or a \<open>.\<close> of the
  pattern against anything but a line terminator. Any other pattern is left to the engine.
\<close>

definition regexp_syntax_char :: "char \<Rightarrow> bool" where
  "regexp_syntax_char c =
     (c \<in> set ''^$*+?()[]{}|'' \<or> (of_char c :: nat) = 92)"

definition line_terminator :: "char \<Rightarrow> bool" where
  "line_terminator c = ((of_char c :: nat) = 10 \<or> (of_char c :: nat) = 13)"

fun wildcard_match :: "string \<Rightarrow> string \<Rightarrow> bool" where
  "wildcard_match [] [] = True"
| "wildcard_match (p # ps) (c # cs) =
     ((if p = CHR ''.'' then \<not> line_terminator c else p = c) \<and> wildcard_match ps cs)"
| "wildcard_match ps cs = False"

definition anchored_match :: "runtime \<Rightarrow> string \<Rightarrow> string \<Rightarrow> js_error + bool" where
  "anchored_match rt pattern subject =
     (if list_ex regexp_syntax_char pattern
      then RegExp_match rt (''^'' @ pattern @ ''$'') subject
      else Inr (wildcard_match pattern subject))"

text \<open>
  The request type is \<open>None\<close> for a value that is none of the three of \<open>RequestTypes\<close>.
  A key that is no string has no \<open>split\<close>, a bucket that is no string no \<open>match\<close>.
\<close>

definition parseImageBucket ::
  "runtime \<Rightarrow> environment \<Rightarrow> event \<Rightarrow> RequestTypes option \<Rightarrow> json option
     \<Rightarrow> js_error + string option" where
  "parseImageBucket rt env ev requestType image_key =
     and_then (getAllowedSourceBuckets env) (\<lambda>sourceBuckets.
       case image_key of
         Some (JStr k) \<Rightarrow>
           (let targetBucket = hd (split (CHR ''/'') k) in
            case requestType of
              Some DEFAULT \<Rightarrow>
                and_then (decodeRequest rt ev) (\<lambda>request.
                and_then (get_prop rt (Some request) ''bucket'') (\<lambda>request_bucket.
                  case request_bucket of
                    None \<Rightarrow> Inr (checkImageBucket env sourceBuckets targetBucket)
                  | Some (JStr b) \<Rightarrow>
                      if b \<in> set sourceBuckets then Inr (Some b)
                      else and_then (anchored_match rt (hd sourceBuckets) b) (\<lambda>matched.
                        if matched then Inr (Some b)
                        else Inl (ImageHandlerError FORBIDDEN
                                    (Some ''ImageBucket::CannotAccessBucket'')
                                    (Some msg_cannot_access_bucket)))
                  | Some other \<Rightarrow> Inl (TypeError None)))
            | Some THUMBOR \<Rightarrow> Inr (checkImageBucket env sourceBuckets targetBucket)
            | Some CUSTOM \<Rightarrow> Inr (checkImageBucket env sourceBuckets targetBucket)
            | None \<Rightarrow> Inl (ImageHandlerError NOT_FOUND (Some ''ImageBucket::CannotFindBucket'')
                        (Some msg_cannot_find_bucket)))
       | other \<Rightarrow> Inl (TypeError None))"

subsection \<open>Edits, key and headers\<close>

definition msg_cannot_parse_edits :: string where
  "msg_cannot_parse_edits = ''The edits you provided could not be parsed. Please check the syntax of your request and refer to the documentation for additional guidance.''"

definition msg_cannot_find_image :: string where
  "msg_cannot_find_image = ''The image you specified could not be found. Please check your request syntax as well as the bucket you specified to ensure it exists.''"

definition parseImageEdits ::
  "runtime \<Rightarrow> event \<Rightarrow> RequestTypes option \<Rightarrow> js_error + json option" where
  "parseImageEdits rt ev requestType =
     (case requestType of
        Some DEFAULT \<Rightarrow>
          and_then (decodeRequest rt ev) (\<lambda>decoded. get_prop rt (Some decoded) ''edits'')
      | Some THUMBOR \<Rightarrow>
          and_then (mapPathToEdits rt (path ev)) (\<lambda>mapped. Inr (Some (JObj mapped)))
      | Some CUSTOM \<Rightarrow>
          and_then (parseCustomPath rt (path ev)) (\<lambda>parsedPath.
          and_then (mapPathToEdits rt parsedPath) (\<lambda>mapped. Inr (Some (JObj mapped))))
      | None \<Rightarrow> Inl (ImageHandlerError BAD_REQUEST (Some ''ImageEdits::CannotParseEdits'')
                  (Some msg_cannot_parse_edits)))"

text \<open>
  \<open>new RegExp(source, flags)\<close> throws a \<open>SyntaxError\<close> on a flag that no version of the
  language knows; with known flags the construction and the replacement are the engine's.
\<close>

definition regexp_replace ::
  "runtime \<Rightarrow> string \<Rightarrow> string \<Rightarrow> string \<Rightarrow> string \<Rightarrow> js_error + string" where
  "regexp_replace rt source flags subject replacement =
     (if list_ex (\<lambda>c. c \<notin> set ''dgimsuvy'') flags then Inl SyntaxError
      else RegExp_replace rt source flags subject replacement)"

text \<open>
  The rewrite of the Custom request type. A replacement that is \<open>undefined\<close> is used as
  the string \<open>undefined\<close>, and so is the search value of the second branch.
\<close>

definition rewrite_path :: "runtime \<Rightarrow> environment \<Rightarrow> string \<Rightarrow> js_error + string" where
  "rewrite_path rt env p =
     (let substitution = (case REWRITE_SUBSTITUTION env of None \<Rightarrow> ''undefined'' | Some r \<Rightarrow> r) in
      case REWRITE_MATCH_PATTERN env of
        Some pattern \<Rightarrow>
          (let patternStrings = split (CHR ''/'') pattern;
               flags = last patternStrings;
               parsedPatternString =
                 slice pattern 1 (int (length pattern) - 1 - int (length flags))
           in regexp_replace rt parsedPatternString flags p substitution)
      | None \<Rightarrow> Inr (String_replace rt p ''undefined'' substitution))"

definition parseImageKey ::
  "runtime \<Rightarrow> environment \<Rightarrow> event \<Rightarrow> RequestTypes option \<Rightarrow> js_error + json option" where
  "parseImageKey rt env ev requestType =
     (case requestType of
        Some DEFAULT \<Rightarrow>
          and_then (decodeRequest rt ev) (\<lambda>decoded. get_prop rt (Some decoded) ''key'')
      | None \<Rightarrow> Inl (ImageHandlerError NOT_FOUND (Some ''ImageEdits::CannotFindImage'')
                  (Some msg_cannot_find_image))
      | Some thumbor_or_custom \<Rightarrow>
          and_then (if requestType = Some CUSTOM then rewrite_path rt env (path ev)
                    else Inr (path ev)) (\<lambda>p.
          and_then (decodeURIComponent rt
                      (dropWhile (\<lambda>c. c = CHR ''/'') (strip_edits rt p))) (\<lambda>result_path.
            Inr (Some (JStr result_path)))))"

definition parseImageHeaders ::
  "runtime \<Rightarrow> event \<Rightarrow> RequestTypes option \<Rightarrow> js_error + json option" where
  "parseImageHeaders rt ev requestType =
     (if requestType = Some DEFAULT then
        and_then (decodeRequest rt ev) (\<lambda>decoded.
        and_then (get_prop rt (Some decoded) ''headers'') (\<lambda>h.
          if truthy h then Inr h else Inr None))
      else Inr None)"

subsection \<open>The output format\<close>

definition getOutputFormat ::
  "runtime \<Rightarrow> environment \<Rightarrow> event \<Rightarrow> RequestTypes option \<Rightarrow> js_error + json option" where
  "getOutputFormat rt env ev requestType =
     (if AUTO_WEBP env = Some ''Yes'' \<and>
         (case headers ev ''Accept'' of
            None \<Rightarrow> False
          | Some accept \<Rightarrow> accept \<noteq> [] \<and> str_includes accept ''image/webp'')
      then Inr (Some (JStr WEBP))
      else if requestType = Some DEFAULT then
        and_then (decodeRequest rt ev) (\<lambda>decoded. get_prop rt (Some decoded) ''outputFormat'')
      else Inr (Some JNull))"

subsection \<open>getOriginalImage\<close>

text \<open>What \<open>getOriginalImage\<close> returns, merged into the request by \<open>Object.assign\<close>.\<close>

record original_image =
  oi_contentType :: string
  oi_expires :: "string option"
  oi_lastModified :: "string option"
  oi_cacheControl :: string
  oi_originalImage :: "byte list"

definition msg_no_such_key :: "runtime \<Rightarrow> json option \<Rightarrow> string" where
  "msg_no_such_key rt k =
     ''The image '' @ template rt k @ '' does not exist or the request may not be base64 encoded properly.''"

text \<open>The \<open>catch\<close> of \<open>getOriginalImage\<close>.\<close>

definition fetch_error :: "runtime \<Rightarrow> json option \<Rightarrow> js_error \<Rightarrow> js_error" where
  "fetch_error rt k error =
     (if error_code error = Some ''NoSuchKey''
      then ImageHandlerError NOT_FOUND (error_code error) (Some (msg_no_such_key rt k))
      else ImageHandlerError INTERNAL_SERVER_ERROR (error_code error) (error_message error))"

definition getOriginalImage ::
  "runtime \<Rightarrow> nat \<Rightarrow> string option \<Rightarrow> json option \<Rightarrow> js_error + original_image" where
  "getOriginalImage rt n b k =
     (case and_then (getObject rt n b k) (\<lambda>originalImage.
             and_then
               (case ContentType originalImage of
                  None \<Rightarrow> Inr ''image''
                | Some ct \<Rightarrow>
                    if ct = [] then Inr ''image''
                    else if ct \<in> set [''binary/octet-stream'', ''application/octet-stream'']
                      then inferImageType (Body originalImage)
                    else Inr ct) (\<lambda>ct.
               Inr \<lparr> oi_contentType = ct,
                     oi_expires = map_option (toUTCString rt) (Expires originalImage),
                     oi_lastModified = map_option (toUTCString rt) (LastModified originalImage),
                     oi_cacheControl = (case CacheControl originalImage of
                                          None \<Rightarrow> ''max-age=31536000,public''
                                        | Some cc \<Rightarrow> cc),
                     oi_originalImage = Body originalImage \<rparr>)) of
        Inl error \<Rightarrow> Inl (fetch_error rt k error)
      | Inr result \<Rightarrow> Inr result)"

subsection \<open>validateRequestSignature\<close>

text \<open>
  The \<open>try\<close> block. \<open>secret[SECRET_KEY]\<close> reads the property named \<open>undefined\<close> when the
  variable is unset; \<open>createHmac\<close> throws Node's \<open>TypeError\<close> on a key that is no string.
\<close>

definition check_signature ::
  "runtime \<Rightarrow> environment \<Rightarrow> event \<Rightarrow> string \<Rightarrow> js_error + unit" where
  "check_signature rt env ev signature =
     and_then (getSecret rt (SECRETS_MANAGER env)) (\<lambda>blob.
       case JSON_parse rt blob of
         None \<Rightarrow> Inl SyntaxError
       | Some secret \<Rightarrow>
           and_then (get_prop rt (Some secret)
                       (case SECRET_KEY env of None \<Rightarrow> ''undefined'' | Some name \<Rightarrow> name))
             (\<lambda>secret_key.
                case secret_key of
                  Some (JStr k) \<Rightarrow>
                    (let hash = hmac_sha256_hex rt k (path ev) in
                     if signature \<noteq> hash
                     then Inl (ImageHandlerError FORBIDDEN (Some ''SignatureDoesNotMatch'')
                                 (Some ''Signature does not match.''))
                     else Inr ())
                | other \<Rightarrow> Inl (TypeError (Some ''ERR_INVALID_ARG_TYPE''))))"

definition validateRequestSignature ::
  "runtime \<Rightarrow> environment \<Rightarrow> event \<Rightarrow> js_error + unit" where
  "validateRequestSignature rt env ev =
     (if ENABLE_SIGNATURE env = Some ''Yes'' then
        (case (case queryStringParameters ev of None \<Rightarrow> None | Some q \<Rightarrow> q ''signature'') of
           None \<Rightarrow> Inl (ImageHandlerError BAD_REQUEST (Some ''AuthorizationQueryParametersError'')
                       (Some ''Query-string requires the signature parameter.''))
         | Some signature \<Rightarrow>
             if signature = []
             then Inl (ImageHandlerError BAD_REQUEST (Some ''AuthorizationQueryParametersError'')
                         (Some ''Query-string requires the signature parameter.''))
             else (case check_signature rt env ev signature of
                     Inl error \<Rightarrow>
                       if error_code error = Some ''SignatureDoesNotMatch'' then Inl error
                       else Inl (ImageHandlerError INTERNAL_SERVER_ERROR
                                   (Some ''SignatureValidationFailure'')
                                   (Some ''Signature validation failed.''))
                   | Inr u \<Rightarrow> Inr ()))
      else Inr ())"

subsection \<open>setup\<close>

text \<open>
  The request being built: a property not yet assigned is \<open>None\<close>. The property
  \<open>headers\<close> of the source is \<open>responseHeaders\<close> here, the name \<open>headers\<close> being the
  event's.
\<close>

record ImageRequestInfo =
  requestType :: RequestTypes
  key :: "json option"
  bucket :: "string option"
  edits :: "json option"
  responseHeaders :: "json option"
  outputFormat :: "json option"
  contentType :: "string option"
  expires :: "string option"
  lastModified :: "string option"
  cacheControl :: "string option"
  originalImage :: "byte list option"
  reductionEffort :: "jsnumber option"

text \<open>Signature, request type, key and bucket: the steps before the first fetch.\<close>

definition locate ::
  "runtime \<Rightarrow> environment \<Rightarrow> event \<Rightarrow> js_error + (RequestTypes \<times> json option \<times> string option)" where
  "locate rt env ev =
     and_then (validateRequestSignature rt env ev) (\<lambda>u.
     and_then (parseRequestType rt env ev) (\<lambda>t.
     and_then (parseImageKey rt env ev (Some t)) (\<lambda>k.
     and_then (parseImageBucket rt env ev (Some t) k) (\<lambda>b.
       Inr (t, k, b)))))"

text \<open>
  The \<open>catch\<close> after the first fetch:
  \<open>originKey.substring(0, originKey.lastIndexOf('/') + 1) + 'default.jpg'\<close>.
\<close>

definition default_key :: "json option \<Rightarrow> js_error + json option" where
  "default_key originKey =
     (case originKey of
        Some (JStr k) \<Rightarrow>
          Inr (Some (JStr (substring0 k (lastIndexOf k (CHR ''/'') + 1) @ ''default.jpg'')))
      | other \<Rightarrow> Inl (TypeError None))"

text \<open>The first fetch: its result is dropped, any rejection is caught.\<close>

definition probed_key ::
  "runtime \<Rightarrow> string option \<Rightarrow> json option \<Rightarrow> js_error + json option" where
  "probed_key rt b k =
     (case getObject rt 0 b k of
        Inr found \<Rightarrow> Inr k
      | Inl error \<Rightarrow> default_key k)"

text \<open>
  \<open>setup\<close> up to the headers, with the requests made to the object store, in order.
\<close>

definition retrieve ::
  "runtime \<Rightarrow> environment \<Rightarrow> event
     \<Rightarrow> (js_error + ImageRequestInfo) \<times> (string option \<times> json option) list" where
  "retrieve rt env ev =
     (case locate rt env ev of
        Inl e \<Rightarrow> (Inl e, [])
      | Inr (t, k, b) \<Rightarrow>
          (case probed_key rt b k of
             Inl e \<Rightarrow> (Inl e, [(b, k)])
           | Inr k' \<Rightarrow>
               (case parseImageEdits rt ev (Some t) of
                  Inl e \<Rightarrow> (Inl e, [(b, k)])
                | Inr ed \<Rightarrow>
                    (and_then (getOriginalImage rt 1 b k') (\<lambda>original.
                     and_then (parseImageHeaders rt ev (Some t)) (\<lambda>h.
                       Inr \<lparr> requestType = t, key = k', bucket = b, edits = ed,
                             responseHeaders = h, outputFormat = None,
                             contentType = Some (oi_contentType original),
                             expires = oi_expires original,
                             lastModified = oi_lastModified original,
                             cacheControl = Some (oi_cacheControl original),
                             originalImage = Some (oi_originalImage original),
                             reductionEffort = None \<rparr>)),
                     [(b, k), (b, k')]))))"

fun decimal :: "nat \<Rightarrow> string" where
  "decimal n =
     (if n < 10 then [''0123456789'' ! n]
      else decimal (n div 10) @ [''0123456789'' ! (n mod 10)])"

declare decimal.simps [simp del]

text \<open>\<open>Object.keys\<close> of a value that is neither \<open>undefined\<close> nor \<open>null\<close>.\<close>

fun own_keys :: "json \<Rightarrow> string list" where
  "own_keys (JObj kvs) = map fst kvs"
| "own_keys (JArr xs) = map decimal [0..<length xs]"
| "own_keys (JStr s) = map decimal [0..<length s]"
| "own_keys v = []"

fun Object_keys :: "json option \<Rightarrow> js_error + string list" where
  "Object_keys None = Inl (TypeError None)"
| "Object_keys (Some JNull) = Inl (TypeError None)"
| "Object_keys (Some v) = Inr (own_keys v)"

text \<open>An SVG original with edits and no \<open>toFormat\<close> edit gets the output format PNG.\<close>

definition force_png :: "runtime \<Rightarrow> ImageRequestInfo \<Rightarrow> ImageRequestInfo" where
  "force_png rt info =
     (case edits info of
        None \<Rightarrow> info
      | Some e \<Rightarrow>
          if contentType info = Some ''image/svg+xml'' \<and> truthy (Some e) \<and> own_keys e \<noteq> [] \<and>
             \<not> truthy (lookup rt e ''toFormat'')
          then info\<lparr>outputFormat := Some (JStr PNG)\<rparr>
          else info)"

text \<open>
  The condition of the second \<open>if\<close>: \<open>edits.toFormat\<close> is read, of whatever \<open>edits\<close>
  is, once the content type is SVG.
\<close>

definition should_negotiate :: "runtime \<Rightarrow> ImageRequestInfo \<Rightarrow> js_error + bool" where
  "should_negotiate rt info =
     (if contentType info \<noteq> Some ''image/svg+xml'' then Inr True
      else and_then (get_prop rt (edits info) ''toFormat'') (\<lambda>toFormat.
             Inr (truthy toFormat \<or> truthy (outputFormat info))))"

text \<open>\<open>Math.trunc\<close> with the coercion of its argument to a number.\<close>

definition to_number :: "runtime \<Rightarrow> json \<Rightarrow> jsnumber" where
  "to_number rt v =
     (case v of
        JNum n \<Rightarrow> n
      | JNull \<Rightarrow> Finite 0
      | JBool b \<Rightarrow> Finite (if b then 1 else 0)
      | other \<Rightarrow> ToNumber rt other)"

definition Math_trunc :: "jsnumber \<Rightarrow> jsnumber" where
  "Math_trunc x =
     (case x of
        Finite r \<Rightarrow> Finite (if 0 \<le> r then of_int \<lfloor>r\<rfloor> else of_int \<lceil>r\<rceil>)
      | other \<Rightarrow> other)"

text \<open>\<open>x >= c\<close> and \<open>x <= c\<close> for a finite \<open>c\<close>: never true of NaN.\<close>

fun at_least :: "jsnumber \<Rightarrow> real \<Rightarrow> bool" where
  "at_least (Finite r) c = (c \<le> r)"
| "at_least PosInfinity c = True"
| "at_least x c = False"

fun at_most :: "jsnumber \<Rightarrow> real \<Rightarrow> bool" where
  "at_most (Finite r) c = (r \<le> c)"
| "at_most NegInfinity c = True"
| "at_most x c = False"

definition DEFAULT_REDUCTION_EFFORT :: jsnumber where
  "DEFAULT_REDUCTION_EFFORT = Finite 4"

definition checked_reductionEffort :: "runtime \<Rightarrow> json \<Rightarrow> jsnumber" where
  "checked_reductionEffort rt v =
     (let reductionEffort = Math_trunc (to_number rt v);
          isValid = (reductionEffort \<noteq> NaN \<and> at_least reductionEffort 0 \<and>
                     at_most reductionEffort 6)
      in if isValid then reductionEffort else DEFAULT_REDUCTION_EFFORT)"

text \<open>The reduction effort of a Default request whose candidate format is WebP.\<close>

definition webp_effort ::
  "runtime \<Rightarrow> event \<Rightarrow> json option \<Rightarrow> ImageRequestInfo \<Rightarrow> js_error + ImageRequestInfo" where
  "webp_effort rt ev candidate info =
     (if candidate = Some (JStr WEBP) \<and> requestType info = DEFAULT then
        and_then (decodeRequest rt ev) (\<lambda>decoded.
        and_then (get_prop rt (Some decoded) ''reductionEffort'') (\<lambda>given.
          case given of
            None \<Rightarrow> Inr info
          | Some v \<Rightarrow> Inr (info\<lparr>reductionEffort := Some (checked_reductionEffort rt v)\<rparr>)))
      else Inr info)"

text \<open>\<open>edits && edits.toFormat\<close>.\<close>

definition edits_toFormat :: "runtime \<Rightarrow> ImageRequestInfo \<Rightarrow> json option" where
  "edits_toFormat rt info =
     (case edits info of
        None \<Rightarrow> None
      | Some e \<Rightarrow> if truthy (Some e) then lookup rt e ''toFormat'' else None)"

definition negotiate ::
  "runtime \<Rightarrow> environment \<Rightarrow> event \<Rightarrow> ImageRequestInfo \<Rightarrow> js_error + ImageRequestInfo" where
  "negotiate rt env ev info =
     and_then (should_negotiate rt info) (\<lambda>go.
       if go then
         and_then (getOutputFormat rt env ev (Some (requestType info))) (\<lambda>candidate.
         and_then (webp_effort rt ev candidate info) (\<lambda>info1.
           if truthy (edits_toFormat rt info1)
           then Inr (info1\<lparr>outputFormat := edits_toFormat rt info1\<rparr>)
           else if truthy candidate then Inr (info1\<lparr>outputFormat := candidate\<rparr>)
           else Inr info1))
       else Inr info)"

text \<open>
  \<open>edits[outputFormat] = edits[qualityKey]; delete edits[qualityKey]\<close>: the assignment
  keeps the place of a key the object has and appends a new one. It is reached with
  a key of the object only, and no value but an object has a key among the accepted.
\<close>

fun rename_key :: "json \<Rightarrow> string \<Rightarrow> string \<Rightarrow> json" where
  "rename_key (JObj kvs) qualityKey fmt =
     (case map_of kvs qualityKey of
        None \<Rightarrow> JObj kvs
      | Some v \<Rightarrow> JObj (AList.delete qualityKey (AList.update fmt v kvs)))"
| "rename_key v qualityKey fmt = v"

definition acceptedValues :: "string list" where
  "acceptedValues = [JPEG, PNG, WEBP, TIFF, HEIF]"

definition fix_quality :: "runtime \<Rightarrow> ImageRequestInfo \<Rightarrow> js_error + ImageRequestInfo" where
  "fix_quality rt info =
     (if truthy (outputFormat info) then
        (let info1 = info\<lparr>contentType := Some (''image/'' @ template rt (outputFormat info))\<rparr> in
         case outputFormat info of
           Some (JStr fmt) \<Rightarrow>
             if requestType info \<in> set [CUSTOM, THUMBOR] \<and> fmt \<in> set acceptedValues then
               and_then (Object_keys (edits info1)) (\<lambda>keys.
                 case filter (\<lambda>k. k \<in> set acceptedValues) keys of
                   [] \<Rightarrow> Inr info1
                 | qualityKey # others \<Rightarrow>
                     if qualityKey \<noteq> [] \<and> qualityKey \<noteq> fmt
                     then Inr (info1\<lparr>edits := map_option (\<lambda>e. rename_key e qualityKey fmt)
                                                  (edits info1)\<rparr>)
                     else Inr info1)
             else Inr info1
         | other \<Rightarrow> Inr info1)
      else Inr info)"

text \<open>The method \<open>setup\<close>, with the requests it made to the object store.\<close>

definition setup_request ::
  "runtime \<Rightarrow> environment \<Rightarrow> event
     \<Rightarrow> (js_error + ImageRequestInfo) \<times> (string option \<times> json option) list" where
  "setup_request rt env ev =
     (case retrieve rt env ev of
        (Inl e, fetched) \<Rightarrow> (Inl e, fetched)
      | (Inr info, fetched) \<Rightarrow>
          (and_then (negotiate rt env ev (force_png rt info)) (fix_quality rt), fetched))"

section \<open>Inputs for the examples\<close>

text \<open>
  A runtime in which each collaborator answers as the real one does on the inputs of
  the examples below: three request documents with their base64 encodings, Thumbor
  paths without edit tokens and without escapes, one object in the store and one secret.
\<close>

definition sample_decodings :: "(string \<times> string) list" where
  \<open>sample_decodings =
     [(''eyJrZXkiOiJhL2IucG5nIn0='', ''{"key":"a/b.png"}''),
      (''eyJidWNrZXQiOiJteXhidWNrZXQiLCJrZXkiOiJhL2IucG5nIn0='',
       ''{"bucket":"myxbucket","key":"a/b.png"}''),
      (''eyJrZXkiOiJpbWFnZXMvYS5zdmciLCJlZGl0cyI6eyJmbGlwIjp0cnVlfSwicmVkdWN0aW9uRWZmb3J0IjozLjd9'',
       ''{"key":"images/a.svg","edits":{"flip":true},"reductionEffort":3.7}'')]\<close>

definition sample_documents :: "(string \<times> json) list" where
  \<open>sample_documents =
     [(''{"key":"a/b.png"}'', JObj [(''key'', JStr ''a/b.png'')]),
      (''{"bucket":"myxbucket","key":"a/b.png"}'',
       JObj [(''bucket'', JStr ''myxbucket''), (''key'', JStr ''a/b.png'')]),
      (''{"key":"images/a.svg","edits":{"flip":true},"reductionEffort":3.7}'',
       JObj [(''key'', JStr ''images/a.svg''), (''edits'', JObj [(''flip'', JBool True)]),
             (''reductionEffort'', JNum (Finite (37 / 10)))]),
      (''{"signing-key":"secret"}'', JObj [(''signing-key'', JStr ''secret'')])]\<close>

definition jpeg_object :: s3_object where
  "jpeg_object =
     \<lparr> Body = [0xFF, 0xD8, 0xFF, 0xE0, 0x00, 0x10], ContentType = Some ''binary/octet-stream'',
       Expires = None, LastModified = None, CacheControl = None \<rparr>"

definition svg_object :: s3_object where
  "svg_object =
     \<lparr> Body = [0x3C, 0x73, 0x76, 0x67], ContentType = Some ''image/svg+xml'',
       Expires = None, LastModified = None, CacheControl = None \<rparr>"

definition sample_store :: "nat \<Rightarrow> string option \<Rightarrow> json option \<Rightarrow> js_error + s3_object" where
  "sample_store n b k =
     (if b = Some ''images-bucket'' \<and> k = Some (JStr ''images/cat.jpg'') then Inr jpeg_object
      else if b = Some ''images-bucket'' \<and> k = Some (JStr ''images/default.jpg'') then Inr jpeg_object
      else if b = Some ''images-bucket'' \<and> k = Some (JStr ''images/a.svg'') then Inr svg_object
      else Inl (ServiceError (Some ''NoSuchKey'') (Some ''The specified key does not exist.'')))"

definition sample_runtime :: runtime where
  \<open>sample_runtime =
     \<lparr> base64_utf8 = (\<lambda>s. case map_of sample_decodings s of None \<Rightarrow> [] | Some t \<Rightarrow> t),
       JSON_parse = map_of sample_documents,
       matchThumbor_test = (\<lambda>p. p = ''/images/cat.jpg'' \<or> p = ''/thumbs/cat.jpg''),
       RegExp_replace = (\<lambda>source flags subject replacement.
          if source = ''thumbs'' \<and> flags = ''g'' \<and> subject = ''/thumbs/cat.jpg''
          then Inr (''/'' @ replacement @ ''/cat.jpg'') else Inr subject),
       RegExp_match = (\<lambda>source subject. Inr False),
       String_replace = (\<lambda>subject search replacement. subject),
       strip_edits = dropWhile (\<lambda>c. c = CHR ''/''),
       decodeURIComponent = Inr,
       member = (\<lambda>v k. None),
       ToNumber = (\<lambda>v. NaN),
       ToString = (\<lambda>v. ''[object Object]''),
       hmac_sha256_hex = (\<lambda>k d.
          if k = ''secret'' \<and> d = ''/images/cat.jpg''
          then ''997a86039518e34eb4d0147b1581b2b6b4166c256753014ca1f94c0f1509a93d'' else []),
       toUTCString = (\<lambda>d. ''Thu, 01 Jan 1970 00:00:00 GMT''),
       getSecret = (\<lambda>id. Inr ''{"signing-key":"secret"}''),
       getObject = sample_store,
       mapPathToEdits = (\<lambda>p. Inr []),
       parseCustomPath = Inr \<rparr>\<close>

definition sample_environment :: environment where
  "sample_environment =
     \<lparr> SOURCE_BUCKETS = Some ''images-bucket, photos-bucket'',
       DEFAULT_FALLBACK_IMAGE_BUCKET = None,
       REWRITE_MATCH_PATTERN = None, REWRITE_SUBSTITUTION = None,
       AUTO_WEBP = None, ENABLE_SIGNATURE = None,
       SECRETS_MANAGER = None, SECRET_KEY = None \<rparr>"

definition rewriting_environment :: environment where
  "rewriting_environment =
     sample_environment\<lparr> REWRITE_MATCH_PATTERN := Some ''/thumbs/g'',
                          REWRITE_SUBSTITUTION := Some ''images'' \<rparr>"

definition sample_event :: "string \<Rightarrow> event" where
  "sample_event p = \<lparr> path = p, headers = (\<lambda>name. None), queryStringParameters = None \<rparr>"

text \<open>Two source buckets with a common part, and one written with a dot.\<close>

definition overlapping_environment :: environment where
  "overlapping_environment = sample_environment\<lparr> SOURCE_BUCKETS := Some ''img-a,img-b'' \<rparr>"

definition dotted_environment :: environment where
  "dotted_environment = sample_environment\<lparr> SOURCE_BUCKETS := Some ''my.bucket'' \<rparr>"

text \<open>A match pattern that is not written between slashes.\<close>

definition plain_environment :: environment where
  "plain_environment =
     sample_environment\<lparr> REWRITE_MATCH_PATTERN := Some ''thumbs'',
                          REWRITE_SUBSTITUTION := Some ''images'' \<rparr>"

text \<open>A signed request: the signature is the HMAC of the path under the key \<open>secret\<close>.\<close>

definition signing_environment :: environment where
  "signing_environment =
     sample_environment\<lparr> ENABLE_SIGNATURE := Some ''Yes'',
                          SECRETS_MANAGER := Some ''image-handler-secret'',
                          SECRET_KEY := Some ''signing-key'' \<rparr>"

definition signed_event :: "string \<Rightarrow> event" where
  "signed_event signature =
     \<lparr> path = ''/images/cat.jpg'', headers = (\<lambda>name. None),
       queryStringParameters = Some ((\<lambda>name. None)(''signature'' \<mapsto> signature)) \<rparr>"

text \<open>A secret provider that is refused by its service.\<close>

definition denied_secret_runtime :: runtime where
  "denied_secret_runtime =
     sample_runtime\<lparr> getSecret := (\<lambda>id. Inl (ServiceError (Some ''AccessDeniedException'')
                                          (Some ''not authorized''))) \<rparr>"

text \<open>
  A secret provider whose own call is rejected by its service with the code
  SignatureDoesNotMatch.
\<close>

definition mismatching_secret_runtime :: runtime where
  "mismatching_secret_runtime =
     sample_runtime\<lparr> getSecret := (\<lambda>id. Inl (ServiceError (Some ''SignatureDoesNotMatch'')
                                          (Some ''request signature rejected''))) \<rparr>"

text \<open>
  A Thumbor request for a JPEG original with a quality edit, as it stands before the
  quality key is fixed, the output format being WebP.
\<close>

definition quality_request :: ImageRequestInfo where
  "quality_request =
     \<lparr> requestType = THUMBOR, key = Some (JStr ''images/cat.jpg''),
       bucket = Some ''images-bucket'',
       edits = Some (JObj [(''resize'', JObj [(''width'', JNum (Finite 100))]),
                           (''jpeg'', JObj [(''quality'', JNum (Finite 80))]),
                           (''grayscale'', JBool True)]),
       responseHeaders = None, outputFormat = Some (JStr ''webp''),
       contentType = Some ''image/jpeg'', expires = None, lastModified = None,
       cacheControl = Some ''max-age=31536000,public'',
       originalImage = Some [0xFF, 0xD8, 0xFF, 0xE0], reductionEffort = None \<rparr>"

text \<open>
  The same request with edits that hold a quality entry for PNG and already one for
  WebP, the output format.
\<close>

definition overwriting_request :: ImageRequestInfo where
  "overwriting_request =
     quality_request
       \<lparr> edits := Some (JObj [(''flip'', JBool True),
                             (''png'', JObj [(''quality'', JNum (Finite 90))]),
                             (''rotate'', JNum (Finite 90)),
                             (''webp'', JObj [(''quality'', JNum (Finite 50))])]) \<rparr>"

text \<open>
  A Default request for an SVG original with one edit and a reduction effort of 3.7,
  sent by a client that accepts WebP to a handler with automatic WebP.
\<close>

definition webp_environment :: environment where
  "webp_environment = sample_environment\<lparr> AUTO_WEBP := Some ''Yes'' \<rparr>"

definition svg_event :: event where
  "svg_event =
     \<lparr> path = ''/eyJrZXkiOiJpbWFnZXMvYS5zdmciLCJlZGl0cyI6eyJmbGlwIjp0cnVlfSwicmVkdWN0aW9uRWZmb3J0IjozLjd9'',
       headers = (\<lambda>name. None)(''Accept'' \<mapsto> ''image/webp,*/*''),
       queryStringParameters = None \<rparr>"

text \<open>The request \<open>setup\<close> builds for it.\<close>

definition svg_descriptor :: ImageRequestInfo where
  "svg_descriptor =
     \<lparr> requestType = DEFAULT, key = Some (JStr ''images/a.svg''),
       bucket = Some ''images-bucket'', edits = Some (JObj [(''flip'', JBool True)]),
       responseHeaders = None, outputFormat = Some (JStr ''webp''),
       contentType = Some ''image/webp'', expires = None, lastModified = None,
       cacheControl = Some ''max-age=31536000,public'',
       originalImage = Some [0x3C, 0x73, 0x76, 0x67], reductionEffort = Some (Finite 3) \<rparr>"

text \<open>A store that refuses access to one object.\<close>

definition denied_store_runtime :: runtime where
  "denied_store_runtime =
     sample_runtime\<lparr> getObject := (\<lambda>n b k.
        if k = Some (JStr ''images/cat.jpg'')
        then Inl (ServiceError (Some ''AccessDenied'') (Some ''Access Denied''))
        else sample_store n b k) \<rparr>"

section \<open>Verified properties\<close>

subsection \<open>The content type of a buffer\<close>

lemma upper_hex_string: "map upper_char ''0123456789abcdef'' = ''0123456789ABCDEF''"
  by (simp add: upper_char_def)

lemma upper_hex_digit: "n < 16 \<Longrightarrow> upper_char (hex_digit n) = ''0123456789ABCDEF'' ! n"
proof -
  assume n: "n < 16"
  have "upper_char (''0123456789abcdef'' ! n) = map upper_char ''0123456789abcdef'' ! n"
    using n by (intro nth_map [symmetric]) simp
  then show ?thesis
    by (simp only: hex_digit_def upper_hex_string)
qed

lemma upper_hex_digit_inj:
  assumes "m < 16" "n < 16" "upper_char (hex_digit m) = upper_char (hex_digit n)"
  shows "m = n"
proof -
  have d: "distinct ''0123456789ABCDEF''" by simp
  have "''0123456789ABCDEF'' ! m = ''0123456789ABCDEF'' ! n"
    using assms by (simp add: upper_hex_digit)
  with d assms(1,2) show ?thesis
    by (simp add: nth_eq_iff_index_eq)
qed

lemma hex_of_byte_inj:
  assumes "map upper_char (hex_of_byte a) = map upper_char (hex_of_byte b)"
  shows "a = b"
proof -
  have "unat a div 16 < 16" "unat b div 16 < 16"
    using unsigned_less [of a, where 'a = nat] unsigned_less [of b, where 'a = nat] by simp_all
  moreover have "unat a mod 16 < 16" "unat b mod 16 < 16" by simp_all
  ultimately have "unat a div 16 = unat b div 16" "unat a mod 16 = unat b mod 16"
    using assms by (auto simp: hex_of_byte_def intro: upper_hex_digit_inj)
  then have "unat a = unat b"
    by (metis div_mult_mod_eq)
  then show ?thesis by (simp add: word_unat_eq_iff)
qed

lemma signature_inj:
  "toUpperCase (toString_hex bs) = toUpperCase (toString_hex cs) \<Longrightarrow> bs = cs"
proof (induction bs arbitrary: cs)
  case Nil
  then show ?case by (cases cs) (simp_all add: toUpperCase_def toString_hex_def hex_of_byte_def)
next
  case (Cons b bs)
  show ?case
  proof (cases cs)
    case Nil
    with Cons.prems show ?thesis
      by (simp add: toUpperCase_def toString_hex_def hex_of_byte_def)
  next
    case (Cons c cs')
    with Cons.prems have "map upper_char (hex_of_byte b) = map upper_char (hex_of_byte c)"
      and "toUpperCase (toString_hex bs) = toUpperCase (toString_hex cs')"
      by (simp_all add: toUpperCase_def toString_hex_def hex_of_byte_def)
    with Cons.IH Cons show ?thesis by (simp add: hex_of_byte_inj)
  qed
qed

lemma signature_eq_iff:
  "toUpperCase (toString_hex bs) = toUpperCase (toString_hex cs) \<longleftrightarrow> bs = cs"
  using signature_inj by blast

lemma sigs:
  "''89504E47'' = toUpperCase (toString_hex [0x89, 0x50, 0x4E, 0x47])"
  "''FFD8FFDB'' = toUpperCase (toString_hex [0xFF, 0xD8, 0xFF, 0xDB])"
  "''FFD8FFE0'' = toUpperCase (toString_hex [0xFF, 0xD8, 0xFF, 0xE0])"
  "''FFD8FFEE'' = toUpperCase (toString_hex [0xFF, 0xD8, 0xFF, 0xEE])"
  "''FFD8FFE1'' = toUpperCase (toString_hex [0xFF, 0xD8, 0xFF, 0xE1])"
  "''52494646'' = toUpperCase (toString_hex [0x52, 0x49, 0x46, 0x46])"
  "''49492A00'' = toUpperCase (toString_hex [0x49, 0x49, 0x2A, 0x00])"
  "''4D4D002A'' = toUpperCase (toString_hex [0x4D, 0x4D, 0x00, 0x2A])"
  by (simp_all add: toUpperCase_def toString_hex_def hex_of_byte_def hex_digit_def upper_char_def)

text \<open>
  Claim C7. The content type inferred from a buffer depends on its first four bytes
  only. The signature 89504E47 gives image/png; FFD8FFDB, FFD8FFE0, FFD8FFEE and
  FFD8FFE1 give image/jpeg; 52494646 gives image/webp; 49492A00 and 4D4D002A give
  image/tiff. Every other buffer, the empty one and those shorter than four bytes
  included, is refused with the error RequestTypeError of status internal server
  error: no type is assumed by default.
\<close>

theorem inferImageType_signature:
  "inferImageType buf = inferImageType (take 4 buf) \<and>
   inferImageType buf =
     (if take 4 buf = [0x89, 0x50, 0x4E, 0x47] then Inr ''image/png''
      else if take 4 buf \<in> {[0xFF, 0xD8, 0xFF, 0xDB], [0xFF, 0xD8, 0xFF, 0xE0],
                              [0xFF, 0xD8, 0xFF, 0xEE], [0xFF, 0xD8, 0xFF, 0xE1]}
        then Inr ''image/jpeg''
      else if take 4 buf = [0x52, 0x49, 0x46, 0x46] then Inr ''image/webp''
      else if take 4 buf \<in> {[0x49, 0x49, 0x2A, 0x00], [0x4D, 0x4D, 0x00, 0x2A]}
        then Inr ''image/tiff''
      else Inl (ImageHandlerError INTERNAL_SERVER_ERROR (Some ''RequestTypeError'')
                  (Some msg_cannot_infer)))"
proof
  show "inferImageType buf = inferImageType (take 4 buf)"
    by (simp add: inferImageType_def)
next
  show "inferImageType buf =
     (if take 4 buf = [0x89, 0x50, 0x4E, 0x47] then Inr ''image/png''
      else if take 4 buf \<in> {[0xFF, 0xD8, 0xFF, 0xDB], [0xFF, 0xD8, 0xFF, 0xE0],
                              [0xFF, 0xD8, 0xFF, 0xEE], [0xFF, 0xD8, 0xFF, 0xE1]}
        then Inr ''image/jpeg''
      else if take 4 buf = [0x52, 0x49, 0x46, 0x46] then Inr ''image/webp''
      else if take 4 buf \<in> {[0x49, 0x49, 0x2A, 0x00], [0x4D, 0x4D, 0x00, 0x2A]}
        then Inr ''image/tiff''
      else Inl (ImageHandlerError INTERNAL_SERVER_ERROR (Some ''RequestTypeError'')
                  (Some msg_cannot_infer)))"
    unfolding inferImageType_def Let_def sigs signature_eq_iff
    by simp
qed

theorem inferImageType_signature_witness:
  "inferImageType [0x89, 0x50, 0x4E, 0x47, 0x0D, 0x0A] = Inr ''image/png'' \<and>
   inferImageType [0xFF, 0xD8] =
     Inl (ImageHandlerError INTERNAL_SERVER_ERROR (Some ''RequestTypeError'') (Some msg_cannot_infer)) \<and>
   inferImageType [] =
     Inl (ImageHandlerError INTERNAL_SERVER_ERROR (Some ''RequestTypeError'') (Some msg_cannot_infer))"
  using inferImageType_signature [of "[0x89, 0x50, 0x4E, 0x47, 0x0D, 0x0A]", THEN conjunct2]
    inferImageType_signature [of "[0xFF, 0xD8]", THEN conjunct2]
    inferImageType_signature [of "[]", THEN conjunct2]
  by simp

subsection \<open>The request type\<close>

lemma and_then_simps [simp]:
  "and_then (Inl e) f = Inl e"
  "and_then (Inr x) f = f x"
  by (simp_all add: and_then_def)

text \<open>
  Claim C1. The request type follows a fixed order of priority: Default when the path
  matches the base64 grammar and the trial decoding (base64, then JSON) of the path
  succeeds; otherwise Custom when both rewrite variables are defined and not empty,
  whatever the path; otherwise Thumbor when the path matches the Thumbor pattern;
  otherwise the error RequestTypeError of status bad request. So a path of the base64
  grammar whose decoding parses is Default also when the rewrite variables are set.
  The trial decoding succeeds exactly when the path is not empty and the text decoded
  from it, a leading slash removed, parses as JSON.
\<close>

theorem parseRequestType_priority:
  "parseRequestType rt env ev =
     (if matchDefault_test (path ev) \<and> (\<exists>decoded. decodeRequest rt ev = Inr decoded)
      then Inr DEFAULT
      else if (\<exists>p s. REWRITE_MATCH_PATTERN env = Some p \<and> p \<noteq> [] \<and>
                      REWRITE_SUBSTITUTION env = Some s \<and> s \<noteq> [])
      then Inr CUSTOM
      else if matchThumbor_test rt (path ev) then Inr THUMBOR
      else Inl (ImageHandlerError BAD_REQUEST (Some ''RequestTypeError'')
                  (Some msg_request_type))) \<and>
   (decodeRequest rt ev = Inr decoded \<longleftrightarrow>
      path ev \<noteq> [] \<and>
      JSON_parse rt (base64_utf8 rt (if hd (path ev) = CHR ''/'' then tl (path ev)
                                     else path ev)) = Some decoded)"
proof
  show "parseRequestType rt env ev =
     (if matchDefault_test (path ev) \<and> (\<exists>decoded. decodeRequest rt ev = Inr decoded)
      then Inr DEFAULT
      else if (\<exists>p s. REWRITE_MATCH_PATTERN env = Some p \<and> p \<noteq> [] \<and>
                      REWRITE_SUBSTITUTION env = Some s \<and> s \<noteq> [])
      then Inr CUSTOM
      else if matchThumbor_test rt (path ev) then Inr THUMBOR
      else Inl (ImageHandlerError BAD_REQUEST (Some ''RequestTypeError'')
                  (Some msg_request_type)))"
    by (cases "decodeRequest rt ev") (auto simp: parseRequestType_def Let_def)
next
  show "decodeRequest rt ev = Inr decoded \<longleftrightarrow>
      path ev \<noteq> [] \<and>
      JSON_parse rt (base64_utf8 rt (if hd (path ev) = CHR ''/'' then tl (path ev)
                                     else path ev)) = Some decoded"
    by (auto simp: decodeRequest_def Let_def split: list.splits option.splits)
qed

lemma sample_event_sel [simp]:
  "path (sample_event p) = p"
  "headers (sample_event p) = (\<lambda>name. None)"
  "queryStringParameters (sample_event p) = None"
  by (simp_all add: sample_event_def)

lemma sample_environment_sel [simp]:
  "SOURCE_BUCKETS sample_environment = Some ''images-bucket, photos-bucket''"
  "DEFAULT_FALLBACK_IMAGE_BUCKET sample_environment = None"
  "REWRITE_MATCH_PATTERN sample_environment = None"
  "REWRITE_SUBSTITUTION sample_environment = None"
  "AUTO_WEBP sample_environment = None"
  "ENABLE_SIGNATURE sample_environment = None"
  "SECRETS_MANAGER sample_environment = None"
  "SECRET_KEY sample_environment = None"
  by (simp_all add: sample_environment_def)

lemma rewriting_environment_sel [simp]:
  "SOURCE_BUCKETS rewriting_environment = Some ''images-bucket, photos-bucket''"
  "DEFAULT_FALLBACK_IMAGE_BUCKET rewriting_environment = None"
  "REWRITE_MATCH_PATTERN rewriting_environment = Some ''/thumbs/g''"
  "REWRITE_SUBSTITUTION rewriting_environment = Some ''images''"
  "AUTO_WEBP rewriting_environment = None"
  "ENABLE_SIGNATURE rewriting_environment = None"
  by (simp_all add: rewriting_environment_def)

lemma sample_runtime_sel [simp]:
  "base64_utf8 sample_runtime = (\<lambda>s. case map_of sample_decodings s of None \<Rightarrow> [] | Some t \<Rightarrow> t)"
  "JSON_parse sample_runtime = map_of sample_documents"
  "matchThumbor_test sample_runtime = (\<lambda>p. p = ''/images/cat.jpg'' \<or> p = ''/thumbs/cat.jpg'')"
  "RegExp_match sample_runtime = (\<lambda>source subject. Inr False)"
  "String_replace sample_runtime = (\<lambda>subject search replacement. subject)"
  "strip_edits sample_runtime = dropWhile (\<lambda>c. c = CHR ''/'')"
  "decodeURIComponent sample_runtime = Inr"
  "member sample_runtime = (\<lambda>v k. None)"
  "ToNumber sample_runtime = (\<lambda>v. NaN)"
  "ToString sample_runtime = (\<lambda>v. ''[object Object]'')"
  "getObject sample_runtime = sample_store"
  "mapPathToEdits sample_runtime = (\<lambda>p. Inr [])"
  "parseCustomPath sample_runtime = Inr"
  by (simp_all add: sample_runtime_def)

lemma sample_decode_key:
  "decodeRequest sample_runtime (sample_event ''/eyJrZXkiOiJhL2IucG5nIn0='') =
     Inr (JObj [(''key'', JStr ''a/b.png'')])"
  by (simp add: decodeRequest_def sample_decodings_def sample_documents_def)

lemma sample_decode_thumbor:
  "decodeRequest sample_runtime (sample_event ''/images/cat.jpg'') \<noteq> Inr x"
  "decodeRequest sample_runtime (sample_event ''/images/cat.gif'') \<noteq> Inr x"
  by (simp_all add: decodeRequest_def sample_decodings_def sample_documents_def)

theorem parseRequestType_priority_witness:
  "parseRequestType sample_runtime rewriting_environment
      (sample_event ''/eyJrZXkiOiJhL2IucG5nIn0='') = Inr DEFAULT \<and>
   parseRequestType sample_runtime rewriting_environment (sample_event ''/images/cat.jpg'')
     = Inr CUSTOM \<and>
   parseRequestType sample_runtime sample_environment (sample_event ''/images/cat.jpg'')
     = Inr THUMBOR \<and>
   parseRequestType sample_runtime sample_environment (sample_event ''/images/cat.gif'')
     = Inl (ImageHandlerError BAD_REQUEST (Some ''RequestTypeError'') (Some msg_request_type))"
proof -
  have m: "matchDefault_test ''/eyJrZXkiOiJhL2IucG5nIn0=''"
    by (simp add: matchDefault_test_def base64_char_def)
  have 1: "parseRequestType sample_runtime rewriting_environment
      (sample_event ''/eyJrZXkiOiJhL2IucG5nIn0='') = Inr DEFAULT"
    using parseRequestType_priority
        [of sample_runtime rewriting_environment "sample_event ''/eyJrZXkiOiJhL2IucG5nIn0=''",
         THEN conjunct1]
    by (simp add: m sample_decode_key)
  have 2: "parseRequestType sample_runtime rewriting_environment
      (sample_event ''/images/cat.jpg'') = Inr CUSTOM"
    using parseRequestType_priority
        [of sample_runtime rewriting_environment "sample_event ''/images/cat.jpg''",
         THEN conjunct1]
    by (simp add: sample_decode_thumbor)
  have 3: "parseRequestType sample_runtime sample_environment
      (sample_event ''/images/cat.jpg'') = Inr THUMBOR"
    using parseRequestType_priority
        [of sample_runtime sample_environment "sample_event ''/images/cat.jpg''",
         THEN conjunct1]
    by (simp add: sample_decode_thumbor)
  have 4: "parseRequestType sample_runtime sample_environment
      (sample_event ''/images/cat.gif'') =
      Inl (ImageHandlerError BAD_REQUEST (Some ''RequestTypeError'') (Some msg_request_type))"
    using parseRequestType_priority
        [of sample_runtime sample_environment "sample_event ''/images/cat.gif''",
         THEN conjunct1]
    by (simp add: sample_decode_thumbor)
  from 1 2 3 4 show ?thesis by simp
qed

subsection \<open>The bucket\<close>

lemma starts_with_iff: "starts_with s t \<longleftrightarrow> (\<exists>post. s = t @ post)"
  by (induction s t rule: starts_with.induct) auto

lemma str_includes_iff: "str_includes s t \<longleftrightarrow> (\<exists>pre post. s = pre @ t @ post)"
proof (induction s)
  case Nil
  then show ?case by simp
next
  case (Cons c s)
  show ?case
  proof
    assume "str_includes (c # s) t"
    then consider "starts_with (c # s) t" | "str_includes s t" by auto
    then show "\<exists>pre post. c # s = pre @ t @ post"
    proof cases
      case 1
      then obtain post where "c # s = t @ post" by (auto simp: starts_with_iff)
      then have "c # s = [] @ t @ post" by simp
      then show ?thesis by blast
    next
      case 2
      with Cons.IH obtain pre post where "s = pre @ t @ post" by blast
      then have "c # s = (c # pre) @ t @ post" by simp
      then show ?thesis by blast
    qed
  next
    assume "\<exists>pre post. c # s = pre @ t @ post"
    then obtain pre post where eq: "c # s = pre @ t @ post" by blast
    show "str_includes (c # s) t"
    proof (cases pre)
      case Nil
      with eq have "starts_with (c # s) t" by (auto simp: starts_with_iff)
      then show ?thesis by simp
    next
      case (Cons d pre')
      with eq have "s = pre' @ t @ post" by simp
      with Cons.IH have "str_includes s t" by blast
      then show ?thesis by simp
    qed
  qed
qed

lemma split_not_Nil: "split sep s \<noteq> []"
  by (induction s) (auto split: list.splits)

lemma hd_split: "hd (split sep s) = takeWhile (\<lambda>c. c \<noteq> sep) s"
  by (induction s) (auto split: list.splits simp: split_not_Nil)

lemma foldl_last_match:
  "foldl (\<lambda>found x. if P x then Some x else found) start xs =
     (case filter P xs of [] \<Rightarrow> start | m # ms \<Rightarrow> Some (last (m # ms)))"
proof (induction xs rule: rev_induct)
  case Nil
  then show ?case by simp
next
  case (snoc x xs)
  show ?case
  proof (cases "P x")
    case True
    obtain m ms where eq: "filter P xs @ [x] = m # ms"
      by (cases "filter P xs") auto
    then have "last (m # ms) = x" by (metis last_snoc)
    with True eq show ?thesis by simp
  next
    case False
    with snoc show ?thesis by simp
  qed
qed

lemma checkImageBucket_last:
  "checkImageBucket env sourceBuckets targetBucket =
     (case filter (\<lambda>b. str_includes b targetBucket) sourceBuckets of
        [] \<Rightarrow> DEFAULT_FALLBACK_IMAGE_BUCKET env
      | m # ms \<Rightarrow> Some (last (m # ms)))"
  unfolding checkImageBucket_def by (rule foldl_last_match)

lemma checkImageBucket_allowed:
  "(\<exists>x. checkImageBucket env sourceBuckets targetBucket = Some x \<and> x \<in> set sourceBuckets) \<or>
   checkImageBucket env sourceBuckets targetBucket = DEFAULT_FALLBACK_IMAGE_BUCKET env"
proof (cases "filter (\<lambda>b. str_includes b targetBucket) sourceBuckets")
  case Nil
  then show ?thesis by (simp add: checkImageBucket_last)
next
  case (Cons m ms)
  then have "last (m # ms) \<in> set (filter (\<lambda>b. str_includes b targetBucket) sourceBuckets)"
    by (metis last_in_set list.distinct(1))
  then have "last (m # ms) \<in> set sourceBuckets" by simp
  with Cons show ?thesis by (simp add: checkImageBucket_last)
qed

lemma get_prop_Inr:
  "get_prop rt v k = Inr r \<longleftrightarrow> (\<exists>j. v = Some j \<and> j \<noteq> JNull \<and> r = lookup rt j k)"
  by (cases "(rt, v, k)" rule: get_prop.cases) auto

text \<open>
  Claim C6, as amended. For the Thumbor and Custom request types, and for the Default
  type when the decoded request has no bucket, the bucket of a key is found through
  the first segment of the key (the part before its first slash): it is the last
  source bucket that contains the segment as a substring, and the fallback bucket,
  which may be unset, when none contains it.
\<close>

theorem parseImageBucket_alias:
  assumes "getAllowedSourceBuckets env = Inr sourceBuckets"
    and "t = Some THUMBOR \<or> t = Some CUSTOM \<or>
         (t = Some DEFAULT \<and>
          (\<exists>request. decodeRequest rt ev = Inr request \<and>
                     get_prop rt (Some request) ''bucket'' = Inr None))"
  shows "parseImageBucket rt env ev t (Some (JStr k)) =
     Inr (case filter (\<lambda>b. \<exists>pre post. b = pre @ takeWhile (\<lambda>c. c \<noteq> CHR ''/'') k @ post)
                 sourceBuckets of
            [] \<Rightarrow> DEFAULT_FALLBACK_IMAGE_BUCKET env
          | m # ms \<Rightarrow> Some (last (m # ms)))"
proof -
  have "parseImageBucket rt env ev t (Some (JStr k)) =
      Inr (checkImageBucket env sourceBuckets (hd (split (CHR ''/'') k)))"
    using assms by (auto simp: parseImageBucket_def Let_def)
  then show ?thesis
    by (simp add: checkImageBucket_last hd_split str_includes_iff)
qed

lemma sample_source_buckets:
  "getAllowedSourceBuckets sample_environment = Inr [''images-bucket'', ''photos-bucket'']"
  "getAllowedSourceBuckets overlapping_environment = Inr [''img-a'', ''img-b'']"
  "getAllowedSourceBuckets dotted_environment = Inr [''my.bucket'']"
  by (simp_all add: getAllowedSourceBuckets_def is_whitespace_def overlapping_environment_def
      dotted_environment_def)

theorem parseImageBucket_alias_witness:
  "parseImageBucket sample_runtime sample_environment (sample_event ''/images/cat.jpg'')
     (Some THUMBOR) (Some (JStr ''images/cat.jpg'')) = Inr (Some ''images-bucket'') \<and>
   parseImageBucket sample_runtime sample_environment
     (sample_event ''/eyJrZXkiOiJhL2IucG5nIn0='') (Some DEFAULT) (Some (JStr ''a/b.png''))
     = Inr (Some ''images-bucket'') \<and>
   parseImageBucket sample_runtime sample_environment (sample_event ''/videos/cat.jpg'')
     (Some CUSTOM) (Some (JStr ''videos/cat.jpg'')) = Inr None"
proof -
  have 1: "parseImageBucket sample_runtime sample_environment (sample_event ''/images/cat.jpg'')
     (Some THUMBOR) (Some (JStr ''images/cat.jpg'')) = Inr (Some ''images-bucket'')"
    using parseImageBucket_alias [OF sample_source_buckets(1), of "Some THUMBOR"
        sample_runtime "sample_event ''/images/cat.jpg''" "''images/cat.jpg''",
        unfolded str_includes_iff [symmetric]]
    by simp
  have 2: "parseImageBucket sample_runtime sample_environment
     (sample_event ''/eyJrZXkiOiJhL2IucG5nIn0='') (Some DEFAULT) (Some (JStr ''a/b.png''))
     = Inr (Some ''images-bucket'')"
    using parseImageBucket_alias [OF sample_source_buckets(1), of "Some DEFAULT"
        sample_runtime "sample_event ''/eyJrZXkiOiJhL2IucG5nIn0=''" "''a/b.png''",
        unfolded str_includes_iff [symmetric]]
    by (simp add: sample_decode_key)
  have 3: "parseImageBucket sample_runtime sample_environment (sample_event ''/videos/cat.jpg'')
     (Some CUSTOM) (Some (JStr ''videos/cat.jpg'')) = Inr None"
    using parseImageBucket_alias [OF sample_source_buckets(1), of "Some CUSTOM"
        sample_runtime "sample_event ''/videos/cat.jpg''" "''videos/cat.jpg''",
        unfolded str_includes_iff [symmetric]]
    by simp
  from 1 2 3 show ?thesis by simp
qed

text \<open>
  The claim as stated, with the first source bucket that contains the segment, fails:
  of the source buckets img-a and img-b the key img/cat.jpg gets img-b.
\<close>

theorem parseImageBucket_first_counterexample:
  "getAllowedSourceBuckets overlapping_environment = Inr [''img-a'', ''img-b''] \<and>
   find (\<lambda>b. str_includes b ''img'') [''img-a'', ''img-b''] = Some ''img-a'' \<and>
   parseImageBucket sample_runtime overlapping_environment (sample_event ''/img/cat.jpg'')
     (Some THUMBOR) (Some (JStr ''img/cat.jpg'')) = Inr (Some ''img-b'')"
  by (simp add: sample_source_buckets parseImageBucket_def checkImageBucket_def)

lemma and_then_Inr:
  "and_then m f = Inr y \<longleftrightarrow> (\<exists>x. m = Inr x \<and> f x = Inr y)"
  by (cases m) simp_all

text \<open>
  Claim C2, as amended. A bucket that \<open>parseImageBucket\<close> returns is a source bucket
  or the fallback bucket, with one exception: for the Default request type the bucket
  given in the decoded request is also returned when it is no source bucket but matches
  the first source bucket read as a regular expression between \<open>^\<close> and \<open>$\<close>.
\<close>

theorem parseImageBucket_allowed:
  assumes "parseImageBucket rt env ev t image_key = Inr b"
  shows "\<exists>sourceBuckets. getAllowedSourceBuckets env = Inr sourceBuckets \<and>
     ((\<exists>x. b = Some x \<and> x \<in> set sourceBuckets) \<or>
      b = DEFAULT_FALLBACK_IMAGE_BUCKET env \<or>
      (t = Some DEFAULT \<and>
       (\<exists>request x. decodeRequest rt ev = Inr request \<and>
          get_prop rt (Some request) ''bucket'' = Inr (Some (JStr x)) \<and> b = Some x \<and>
          anchored_match rt (hd sourceBuckets) x = Inr True)))"
proof -
  from assms obtain sourceBuckets where sb: "getAllowedSourceBuckets env = Inr sourceBuckets"
    by (auto simp: parseImageBucket_def and_then_Inr)
  from assms sb obtain k where k: "image_key = Some (JStr k)"
    by (auto simp: parseImageBucket_def split: option.splits json.splits)
  let ?target = "hd (split (CHR ''/'') k)"
  note found = checkImageBucket_allowed [of env sourceBuckets ?target]
  show ?thesis
  proof (cases "t = Some DEFAULT")
    case False
    with assms sb k have "b = checkImageBucket env sourceBuckets ?target"
      by (auto simp: parseImageBucket_def Let_def
          split: option.splits RequestTypes.splits)
    with found sb show ?thesis by auto
  next
    case True
    with assms sb k obtain request given where
      req: "decodeRequest rt ev = Inr request"
        "get_prop rt (Some request) ''bucket'' = Inr given"
      and rest: "(case given of
            None \<Rightarrow> Inr (checkImageBucket env sourceBuckets ?target)
          | Some (JStr x) \<Rightarrow>
              if x \<in> set sourceBuckets then Inr (Some x)
              else and_then (anchored_match rt (hd sourceBuckets) x) (\<lambda>matched.
                if matched then Inr (Some x)
                else Inl (ImageHandlerError FORBIDDEN
                            (Some ''ImageBucket::CannotAccessBucket'')
                            (Some msg_cannot_access_bucket)))
          | Some other \<Rightarrow> Inl (TypeError None)) = Inr b"
      by (auto simp: parseImageBucket_def Let_def and_then_Inr)
    show ?thesis
    proof (cases given)
      case None
      with rest have "b = checkImageBucket env sourceBuckets ?target" by simp
      with found sb show ?thesis by auto
    next
      case (Some j)
      with rest obtain x where x: "j = JStr x" by (cases j) simp_all
      show ?thesis
      proof (cases "x \<in> set sourceBuckets")
        case True
        with rest Some x sb show ?thesis by auto
      next
        case False
        with rest Some x have "anchored_match rt (hd sourceBuckets) x = Inr True" "b = Some x"
          by (auto simp: and_then_Inr split: if_splits)
        with True req Some x sb \<open>t = Some DEFAULT\<close> show ?thesis by auto
      qed
    qed
  qed
qed

lemma sample_decode_bucket:
  "decodeRequest sample_runtime
     (sample_event ''/eyJidWNrZXQiOiJteXhidWNrZXQiLCJrZXkiOiJhL2IucG5nIn0='') =
     Inr (JObj [(''bucket'', JStr ''myxbucket''), (''key'', JStr ''a/b.png'')])"
  by (simp add: decodeRequest_def sample_decodings_def sample_documents_def)

text \<open>
  The claim as stated fails: with the one source bucket my.bucket and no fallback
  bucket, a Default request for the bucket myxbucket passes, the dot of the source
  bucket matching any character.
\<close>

theorem parseImageBucket_regexp_counterexample:
  "getAllowedSourceBuckets dotted_environment = Inr [''my.bucket''] \<and>
   DEFAULT_FALLBACK_IMAGE_BUCKET dotted_environment = None \<and>
   ''myxbucket'' \<notin> set [''my.bucket''] \<and>
   parseImageBucket sample_runtime dotted_environment
     (sample_event ''/eyJidWNrZXQiOiJteXhidWNrZXQiLCJrZXkiOiJhL2IucG5nIn0='')
     (Some DEFAULT) (Some (JStr ''a/b.png'')) = Inr (Some ''myxbucket'')"
proof -
  have "DEFAULT_FALLBACK_IMAGE_BUCKET dotted_environment = None"
    by (simp add: dotted_environment_def)
  then show ?thesis
    by (simp add: sample_source_buckets parseImageBucket_def sample_decode_bucket
        anchored_match_def regexp_syntax_char_def line_terminator_def)
qed

theorem parseImageBucket_allowed_witness:
  "parseImageBucket sample_runtime sample_environment (sample_event ''/images/cat.jpg'')
     (Some THUMBOR) (Some (JStr ''images/cat.jpg'')) = Inr (Some ''images-bucket'') \<and>
   (\<exists>sourceBuckets. getAllowedSourceBuckets sample_environment = Inr sourceBuckets \<and>
      ''images-bucket'' \<in> set sourceBuckets)"
proof -
  have r: "parseImageBucket sample_runtime sample_environment (sample_event ''/images/cat.jpg'')
     (Some THUMBOR) (Some (JStr ''images/cat.jpg'')) = Inr (Some ''images-bucket'')"
    by (simp add: sample_source_buckets parseImageBucket_def checkImageBucket_def)
  from parseImageBucket_allowed [OF r] show ?thesis
    using r by simp
qed


subsection \<open>The rewrite of the Custom request type\<close>

lemma split_none: "sep \<notin> set s \<Longrightarrow> split sep s = [s]"
  by (induction s) auto

lemma split_append:
  "split sep (a @ sep # b) = split sep a @ split sep b"
proof (induction a)
  case Nil
  then show ?case by simp
next
  case (Cons c a)
  obtain piece pieces where "split sep a = piece # pieces"
    using split_not_Nil [of sep a] by (cases "split sep a") auto
  with Cons show ?case by simp
qed

lemma last_split_after:
  "sep \<notin> set b \<Longrightarrow> last (split sep (a @ sep # b)) = b"
  by (simp add: split_append split_none)

lemma last_split: "last (split sep s) = rev (takeWhile (\<lambda>c. c \<noteq> sep) (rev s))"
proof (cases "sep \<in> set s")
  case False
  then have eq: "takeWhile (\<lambda>c. c \<noteq> sep) (rev s) = rev s"
    by (auto simp: takeWhile_eq_all_conv)
  show ?thesis unfolding eq using False by (simp add: split_none)
next
  case True
  then obtain a b where s: "s = a @ sep # b" and b: "sep \<notin> set b"
    by (auto dest: split_list_last)
  have "takeWhile (\<lambda>c. c \<noteq> sep) (rev b @ sep # rev a) = rev b"
    by (subst takeWhile_append2) (use b in auto)
  with s b show ?thesis by (simp add: last_split_after)
qed

lemma slice_between:
  "slice (c # body @ d # flags) 1 (int (length (c # body @ d # flags)) - 1 - int (length flags))
     = body"
  by (simp add: slice_def Let_def)

lemma slice_inner:
  "slice s 1 (- 1) = butlast (tl s)"
proof (cases s)
  case Nil
  then show ?thesis by (simp add: slice_def)
next
  case (Cons c r)
  then show ?thesis
    by (simp add: slice_def Let_def butlast_conv_take nat_diff_distrib')
qed

text \<open>
  Claim C5, as amended. In the Custom request type a match pattern that is set, of
  whatever form, is used as a regular expression: the text after its last slash (the
  whole pattern when it has no slash) is taken as the flags, the text from its second
  character to the character before that slash as the source, and one substitution
  with the regular expression is applied, which fails when the engine rejects the
  flags or the source. A pattern written \<open>/source/flags\<close> is so applied as written. The
  literal replacement is applied only when the match pattern is unset, with the
  search text \<open>undefined\<close>. One rule is applied per request, and the rewritten path is
  handled as a path of the Thumbor request type.
\<close>

theorem rewrite_path_regexp:
  "rewrite_path rt env p =
     (case REWRITE_MATCH_PATTERN env of
        Some pattern \<Rightarrow>
          regexp_replace rt
            (slice pattern 1
               (int (length pattern) - 1 -
                int (length (takeWhile (\<lambda>c. c \<noteq> CHR ''/'') (rev pattern)))))
            (rev (takeWhile (\<lambda>c. c \<noteq> CHR ''/'') (rev pattern))) p
            (case REWRITE_SUBSTITUTION env of None \<Rightarrow> ''undefined'' | Some r \<Rightarrow> r)
      | None \<Rightarrow>
          Inr (String_replace rt p ''undefined''
                 (case REWRITE_SUBSTITUTION env of None \<Rightarrow> ''undefined'' | Some r \<Rightarrow> r))) \<and>
   (REWRITE_MATCH_PATTERN env = Some (CHR ''/'' # source @ CHR ''/'' # flags) \<and>
    CHR ''/'' \<notin> set flags \<longrightarrow>
      rewrite_path rt env p =
        regexp_replace rt source flags p
          (case REWRITE_SUBSTITUTION env of None \<Rightarrow> ''undefined'' | Some r \<Rightarrow> r)) \<and>
   (REWRITE_MATCH_PATTERN env = Some pattern \<and> CHR ''/'' \<notin> set pattern \<longrightarrow>
      rewrite_path rt env p =
        regexp_replace rt (butlast (tl pattern)) pattern p
          (case REWRITE_SUBSTITUTION env of None \<Rightarrow> ''undefined'' | Some r \<Rightarrow> r)) \<and>
   parseImageKey rt env ev (Some CUSTOM) =
     and_then (rewrite_path rt env (path ev))
       (\<lambda>rewritten. parseImageKey rt env (ev\<lparr>path := rewritten\<rparr>) (Some THUMBOR))"
proof (intro conjI impI)
  show "rewrite_path rt env p =
     (case REWRITE_MATCH_PATTERN env of
        Some pattern \<Rightarrow>
          regexp_replace rt
            (slice pattern 1
               (int (length pattern) - 1 -
                int (length (takeWhile (\<lambda>c. c \<noteq> CHR ''/'') (rev pattern)))))
            (rev (takeWhile (\<lambda>c. c \<noteq> CHR ''/'') (rev pattern))) p
            (case REWRITE_SUBSTITUTION env of None \<Rightarrow> ''undefined'' | Some r \<Rightarrow> r)
      | None \<Rightarrow>
          Inr (String_replace rt p ''undefined''
                 (case REWRITE_SUBSTITUTION env of None \<Rightarrow> ''undefined'' | Some r \<Rightarrow> r)))"
    by (simp add: rewrite_path_def Let_def last_split split: option.splits)
next
  assume a: "REWRITE_MATCH_PATTERN env = Some (CHR ''/'' # source @ CHR ''/'' # flags) \<and>
    CHR ''/'' \<notin> set flags"
  then have "last (split (CHR ''/'') (CHR ''/'' # source @ CHR ''/'' # flags)) = flags"
    using last_split_after [of "CHR ''/''" flags "CHR ''/'' # source"] by simp
  with a show "rewrite_path rt env p =
        regexp_replace rt source flags p
          (case REWRITE_SUBSTITUTION env of None \<Rightarrow> ''undefined'' | Some r \<Rightarrow> r)"
    using slice_between [of "CHR ''/''" source "CHR ''/''" flags]
    by (simp add: rewrite_path_def Let_def del: split.simps)
next
  assume a: "REWRITE_MATCH_PATTERN env = Some pattern \<and> CHR ''/'' \<notin> set pattern"
  then show "rewrite_path rt env p =
        regexp_replace rt (butlast (tl pattern)) pattern p
          (case REWRITE_SUBSTITUTION env of None \<Rightarrow> ''undefined'' | Some r \<Rightarrow> r)"
    by (simp add: rewrite_path_def Let_def split_none slice_inner)
next
  show "parseImageKey rt env ev (Some CUSTOM) =
     and_then (rewrite_path rt env (path ev))
       (\<lambda>rewritten. parseImageKey rt env (ev\<lparr>path := rewritten\<rparr>) (Some THUMBOR))"
    by (simp add: parseImageKey_def)
qed

lemma sample_RegExp_replace [simp]:
  "RegExp_replace sample_runtime = (\<lambda>source flags subject replacement.
          if source = ''thumbs'' \<and> flags = ''g'' \<and> subject = ''/thumbs/cat.jpg''
          then Inr (''/'' @ replacement @ ''/cat.jpg'') else Inr subject)"
  by (simp add: sample_runtime_def)

theorem rewrite_path_regexp_witness:
  "rewrite_path sample_runtime rewriting_environment ''/thumbs/cat.jpg'' = Inr ''/images/cat.jpg'' \<and>
   parseImageKey sample_runtime rewriting_environment (sample_event ''/thumbs/cat.jpg'')
     (Some CUSTOM) = Inr (Some (JStr ''images/cat.jpg''))"
proof -
  have p: "REWRITE_MATCH_PATTERN rewriting_environment = Some (CHR ''/'' # ''thumbs'' @ CHR ''/'' # ''g'') \<and>
    CHR ''/'' \<notin> set ''g''"
    by simp
  have 1: "rewrite_path sample_runtime rewriting_environment ''/thumbs/cat.jpg'' =
      Inr ''/images/cat.jpg''"
    using rewrite_path_regexp [of sample_runtime rewriting_environment "''/thumbs/cat.jpg''"
        "''thumbs''" "''g''", THEN conjunct2, THEN conjunct1, rule_format, OF p]
    by (simp add: regexp_replace_def)
  have 2: "parseImageKey sample_runtime rewriting_environment (sample_event ''/thumbs/cat.jpg'')
     (Some CUSTOM) = Inr (Some (JStr ''images/cat.jpg''))"
    using rewrite_path_regexp [of sample_runtime rewriting_environment "''/thumbs/cat.jpg''"
        "''thumbs''" "''g''" "''x''" "sample_event ''/thumbs/cat.jpg''",
        THEN conjunct2, THEN conjunct2, THEN conjunct2]
    by (simp add: 1 parseImageKey_def sample_event_def)
  from 1 2 show ?thesis by simp
qed

text \<open>
  The claim as stated fails for a pattern that is no regular-expression literal: the
  pattern \<open>thumbs\<close> is not replaced literally in the path, it is read as the source
  \<open>humb\<close> with the flags \<open>thumbs\<close>, which no engine accepts.
\<close>

theorem rewrite_path_literal_counterexample:
  "parseRequestType sample_runtime plain_environment (sample_event ''/thumbs/cat.jpg'')
     = Inr CUSTOM \<and>
   rewrite_path sample_runtime plain_environment ''/thumbs/cat.jpg'' = Inl SyntaxError \<and>
   parseImageKey sample_runtime plain_environment (sample_event ''/thumbs/cat.jpg'')
     (Some CUSTOM) = Inl SyntaxError"
proof -
  have e: "REWRITE_MATCH_PATTERN plain_environment = Some ''thumbs''"
    "REWRITE_SUBSTITUTION plain_environment = Some ''images''"
    by (simp_all add: plain_environment_def)
  have d: "decodeRequest sample_runtime (sample_event ''/thumbs/cat.jpg'') =
      Inl (ImageHandlerError BAD_REQUEST (Some ''DecodeRequest::CannotDecodeRequest'')
             (Some msg_cannot_decode))"
    by (simp add: decodeRequest_def sample_decodings_def sample_documents_def)
  have r: "rewrite_path sample_runtime plain_environment ''/thumbs/cat.jpg'' = Inl SyntaxError"
    by (simp add: rewrite_path_def e regexp_replace_def)
  show ?thesis
    by (simp add: r parseImageKey_def) (simp add: parseRequestType_def e d)
qed


subsection \<open>The signature\<close>

lemma check_signature_rejected:
  "getSecret rt (SECRETS_MANAGER env) = Inl error \<Longrightarrow>
     check_signature rt env ev signature = Inl error"
  by (simp add: check_signature_def)

lemma check_signature_unparsed:
  "getSecret rt (SECRETS_MANAGER env) = Inr blob \<Longrightarrow> JSON_parse rt blob = None \<Longrightarrow>
     check_signature rt env ev signature = Inl SyntaxError"
  by (simp add: check_signature_def)

lemma check_signature_no_key:
  assumes "getSecret rt (SECRETS_MANAGER env) = Inr blob" "JSON_parse rt blob = Some secret"
    and "secret = JNull \<or>
     (\<forall>k. lookup rt secret (case SECRET_KEY env of None \<Rightarrow> ''undefined'' | Some name \<Rightarrow> name)
            \<noteq> Some (JStr k))"
  shows "\<exists>c. check_signature rt env ev signature = Inl (TypeError c) \<and>
           c \<noteq> Some ''SignatureDoesNotMatch''"
proof (cases "secret = JNull")
  case True
  with assms show ?thesis by (simp add: check_signature_def)
next
  case False
  let ?name = "case SECRET_KEY env of None \<Rightarrow> ''undefined'' | Some name \<Rightarrow> name"
  from False have g: "get_prop rt (Some secret) ?name = Inr (lookup rt secret ?name)"
    by (cases secret) simp_all
  from assms(3) False have n: "lookup rt secret ?name \<noteq> Some (JStr k)" for k by simp
  have "check_signature rt env ev signature = Inl (TypeError (Some ''ERR_INVALID_ARG_TYPE''))"
  proof (cases "lookup rt secret ?name")
    case None
    with assms(1,2) g show ?thesis by (simp add: check_signature_def)
  next
    case (Some j)
    show ?thesis
    proof (cases j)
      case (JStr x)
      with Some n [of x] show ?thesis by simp
    qed (use assms(1,2) g Some in \<open>simp_all add: check_signature_def\<close>)
  qed
  then show ?thesis by simp
qed

lemma validateRequestSignature_checked:
  assumes "ENABLE_SIGNATURE env = Some ''Yes''" "queryStringParameters ev = Some q"
    "q ''signature'' = Some signature" "signature \<noteq> []"
  shows "validateRequestSignature rt env ev =
     (case check_signature rt env ev signature of
        Inl error \<Rightarrow>
          if error_code error = Some ''SignatureDoesNotMatch'' then Inl error
          else Inl (ImageHandlerError INTERNAL_SERVER_ERROR (Some ''SignatureValidationFailure'')
                      (Some ''Signature validation failed.''))
      | Inr u \<Rightarrow> Inr ())"
  using assms by (simp add: validateRequestSignature_def)

text \<open>
  Claim C4, as amended. \<open>validateRequestSignature\<close> does nothing unless signing is enabled. When it
  is enabled, a request without a \<open>signature\<close> parameter (or with an empty one) fails with
  AuthorizationQueryParametersError, bad request. A signature that differs from the
  hex HMAC-SHA256 of the path as received, under the key of the configured secret,
  fails with SignatureDoesNotMatch, forbidden, and one that equals it passes. Every
  error that carries the code SignatureDoesNotMatch is thrown again as it is, also a
  rejection of the secret provider that carries this code; every other failure while
  the secret is fetched, parsed or used (a rejection by the provider with another code,
  a secret that is no JSON, a key that is no string) fails with
  SignatureValidationFailure, internal server error.
\<close>

theorem validateRequestSignature_cases:
  "(ENABLE_SIGNATURE env \<noteq> Some ''Yes'' \<longrightarrow> validateRequestSignature rt env ev = Inr ()) \<and>
   (ENABLE_SIGNATURE env = Some ''Yes'' \<and>
    (queryStringParameters ev = None \<or>
     (\<exists>q. queryStringParameters ev = Some q \<and> (q ''signature'' = None \<or> q ''signature'' = Some []))) \<longrightarrow>
      validateRequestSignature rt env ev =
        Inl (ImageHandlerError BAD_REQUEST (Some ''AuthorizationQueryParametersError'')
               (Some ''Query-string requires the signature parameter.''))) \<and>
   (ENABLE_SIGNATURE env = Some ''Yes'' \<and> queryStringParameters ev = Some q \<and>
    q ''signature'' = Some signature \<and> signature \<noteq> [] \<longrightarrow>
      (getSecret rt (SECRETS_MANAGER env) = Inr blob \<and> JSON_parse rt blob = Some secret \<and>
       get_prop rt (Some secret)
         (case SECRET_KEY env of None \<Rightarrow> ''undefined'' | Some name \<Rightarrow> name) = Inr (Some (JStr k)) \<longrightarrow>
         validateRequestSignature rt env ev =
           (if signature = hmac_sha256_hex rt k (path ev) then Inr ()
            else Inl (ImageHandlerError FORBIDDEN (Some ''SignatureDoesNotMatch'')
                        (Some ''Signature does not match.'')))) \<and>
      (getSecret rt (SECRETS_MANAGER env) = Inl error \<longrightarrow>
         validateRequestSignature rt env ev =
           (if error_code error = Some ''SignatureDoesNotMatch'' then Inl error
            else Inl (ImageHandlerError INTERNAL_SERVER_ERROR
                        (Some ''SignatureValidationFailure'')
                        (Some ''Signature validation failed.'')))) \<and>
      (getSecret rt (SECRETS_MANAGER env) = Inr blob \<and>
       (JSON_parse rt blob = None \<or>
        JSON_parse rt blob = Some JNull \<or>
        (\<exists>secret. JSON_parse rt blob = Some secret \<and>
           (\<forall>k. lookup rt secret
                   (case SECRET_KEY env of None \<Rightarrow> ''undefined'' | Some name \<Rightarrow> name)
                 \<noteq> Some (JStr k)))) \<longrightarrow>
         validateRequestSignature rt env ev =
           Inl (ImageHandlerError INTERNAL_SERVER_ERROR (Some ''SignatureValidationFailure'')
                  (Some ''Signature validation failed.''))))"
proof (intro conjI impI)
  show "validateRequestSignature rt env ev = Inr ()" if "ENABLE_SIGNATURE env \<noteq> Some ''Yes''"
    using that by (simp add: validateRequestSignature_def)
next
  assume "ENABLE_SIGNATURE env = Some ''Yes'' \<and>
    (queryStringParameters ev = None \<or>
     (\<exists>q. queryStringParameters ev = Some q \<and> (q ''signature'' = None \<or> q ''signature'' = Some [])))"
  then show "validateRequestSignature rt env ev =
        Inl (ImageHandlerError BAD_REQUEST (Some ''AuthorizationQueryParametersError'')
               (Some ''Query-string requires the signature parameter.''))"
    by (auto simp: validateRequestSignature_def)
next
  assume e: "ENABLE_SIGNATURE env = Some ''Yes'' \<and> queryStringParameters ev = Some q \<and>
    q ''signature'' = Some signature \<and> signature \<noteq> []"
    and a: "getSecret rt (SECRETS_MANAGER env) = Inr blob \<and> JSON_parse rt blob = Some secret \<and>
       get_prop rt (Some secret)
         (case SECRET_KEY env of None \<Rightarrow> ''undefined'' | Some name \<Rightarrow> name) = Inr (Some (JStr k))"
  from a have "check_signature rt env ev signature =
      (if signature \<noteq> hmac_sha256_hex rt k (path ev)
       then Inl (ImageHandlerError FORBIDDEN (Some ''SignatureDoesNotMatch'')
                   (Some ''Signature does not match.''))
       else Inr ())"
    by (simp add: check_signature_def Let_def)
  with e show "validateRequestSignature rt env ev =
        (if signature = hmac_sha256_hex rt k (path ev) then Inr ()
         else Inl (ImageHandlerError FORBIDDEN (Some ''SignatureDoesNotMatch'')
                     (Some ''Signature does not match.'')))"
    by (simp add: validateRequestSignature_def)
next
  assume e: "ENABLE_SIGNATURE env = Some ''Yes'' \<and> queryStringParameters ev = Some q \<and>
    q ''signature'' = Some signature \<and> signature \<noteq> []"
    and a: "getSecret rt (SECRETS_MANAGER env) = Inl error"
  from a have "check_signature rt env ev signature = Inl error"
    by (rule check_signature_rejected)
  with e show "validateRequestSignature rt env ev =
           (if error_code error = Some ''SignatureDoesNotMatch'' then Inl error
            else Inl (ImageHandlerError INTERNAL_SERVER_ERROR
                        (Some ''SignatureValidationFailure'')
                        (Some ''Signature validation failed.'')))"
    by (simp add: validateRequestSignature_checked [of env ev q signature rt])
next
  assume e: "ENABLE_SIGNATURE env = Some ''Yes'' \<and> queryStringParameters ev = Some q \<and>
    q ''signature'' = Some signature \<and> signature \<noteq> []"
    and a: "getSecret rt (SECRETS_MANAGER env) = Inr blob \<and>
       (JSON_parse rt blob = None \<or>
        JSON_parse rt blob = Some JNull \<or>
        (\<exists>secret. JSON_parse rt blob = Some secret \<and>
           (\<forall>k. lookup rt secret
                   (case SECRET_KEY env of None \<Rightarrow> ''undefined'' | Some name \<Rightarrow> name)
                 \<noteq> Some (JStr k))))"
  from a have blob: "getSecret rt (SECRETS_MANAGER env) = Inr blob" by simp
  from a have "JSON_parse rt blob = None \<or>
        JSON_parse rt blob = Some JNull \<or>
        (\<exists>secret. JSON_parse rt blob = Some secret \<and>
           (\<forall>k. lookup rt secret
                   (case SECRET_KEY env of None \<Rightarrow> ''undefined'' | Some name \<Rightarrow> name)
                 \<noteq> Some (JStr k)))"
    by simp
  then have failed: "\<exists>failure. check_signature rt env ev signature = Inl failure \<and>
      error_code failure \<noteq> Some ''SignatureDoesNotMatch''"
  proof (elim disjE exE conjE)
    assume "JSON_parse rt blob = None"
    then have "check_signature rt env ev signature = Inl SyntaxError"
      by (rule check_signature_unparsed [OF blob])
    then show ?thesis by simp
  next
    assume p: "JSON_parse rt blob = Some JNull"
    obtain c where "check_signature rt env ev signature = Inl (TypeError c)"
      "c \<noteq> Some ''SignatureDoesNotMatch''"
      using check_signature_no_key [OF blob p, of ev signature] by auto
    then show ?thesis by simp
  next
    fix secret
    assume p: "JSON_parse rt blob = Some secret"
      and n: "\<forall>k. lookup rt secret
                   (case SECRET_KEY env of None \<Rightarrow> ''undefined'' | Some name \<Rightarrow> name)
                 \<noteq> Some (JStr k)"
    obtain c where "check_signature rt env ev signature = Inl (TypeError c)"
      "c \<noteq> Some ''SignatureDoesNotMatch''"
      using check_signature_no_key [OF blob p, of ev signature] n by auto
    then show ?thesis by simp
  qed
  then obtain failure where f: "check_signature rt env ev signature = Inl failure"
    "error_code failure \<noteq> Some ''SignatureDoesNotMatch''"
    by auto
  from e show "validateRequestSignature rt env ev =
           Inl (ImageHandlerError INTERNAL_SERVER_ERROR (Some ''SignatureValidationFailure'')
                  (Some ''Signature validation failed.''))"
    by (simp add: validateRequestSignature_checked [of env ev q signature rt] f)
qed

lemma signing_environment_sel [simp]:
  "ENABLE_SIGNATURE signing_environment = Some ''Yes''"
  "SECRETS_MANAGER signing_environment = Some ''image-handler-secret''"
  "SECRET_KEY signing_environment = Some ''signing-key''"
  by (simp_all add: signing_environment_def)

lemma signed_event_sel [simp]:
  "path (signed_event s) = ''/images/cat.jpg''"
  "queryStringParameters (signed_event s) = Some ((\<lambda>name. None)(''signature'' \<mapsto> s))"
  by (simp_all add: signed_event_def)

lemma sample_secret [simp]:
  \<open>getSecret sample_runtime = (\<lambda>id. Inr ''{"signing-key":"secret"}'')\<close>
  "hmac_sha256_hex sample_runtime = (\<lambda>k d.
          if k = ''secret'' \<and> d = ''/images/cat.jpg''
          then ''997a86039518e34eb4d0147b1581b2b6b4166c256753014ca1f94c0f1509a93d'' else [])"
  "getSecret denied_secret_runtime =
     (\<lambda>id. Inl (ServiceError (Some ''AccessDeniedException'') (Some ''not authorized'')))"
  by (simp_all add: sample_runtime_def denied_secret_runtime_def)

theorem validateRequestSignature_cases_witness:
  "validateRequestSignature sample_runtime sample_environment (sample_event ''/images/cat.jpg'')
     = Inr () \<and>
   validateRequestSignature sample_runtime signing_environment (sample_event ''/images/cat.jpg'')
     = Inl (ImageHandlerError BAD_REQUEST (Some ''AuthorizationQueryParametersError'')
              (Some ''Query-string requires the signature parameter.'')) \<and>
   validateRequestSignature sample_runtime signing_environment
     (signed_event ''997a86039518e34eb4d0147b1581b2b6b4166c256753014ca1f94c0f1509a93d'')
     = Inr () \<and>
   validateRequestSignature sample_runtime signing_environment
     (signed_event ''097a86039518e34eb4d0147b1581b2b6b4166c256753014ca1f94c0f1509a93d'')
     = Inl (ImageHandlerError FORBIDDEN (Some ''SignatureDoesNotMatch'')
              (Some ''Signature does not match.'')) \<and>
   validateRequestSignature denied_secret_runtime signing_environment
     (signed_event ''997a86039518e34eb4d0147b1581b2b6b4166c256753014ca1f94c0f1509a93d'')
     = Inl (ImageHandlerError INTERNAL_SERVER_ERROR (Some ''SignatureValidationFailure'')
              (Some ''Signature validation failed.''))"
proof -
  let ?good = "''997a86039518e34eb4d0147b1581b2b6b4166c256753014ca1f94c0f1509a93d''"
  let ?bad = "''097a86039518e34eb4d0147b1581b2b6b4166c256753014ca1f94c0f1509a93d''"
  let ?secret = "JObj [(''signing-key'', JStr ''secret'')]"
  have parsed: \<open>map_of sample_documents ''{"signing-key":"secret"}'' = Some ?secret\<close>
    by (simp add: sample_documents_def)
  have 1: "validateRequestSignature sample_runtime sample_environment
      (sample_event ''/images/cat.jpg'') = Inr ()"
    using validateRequestSignature_cases
      [of sample_environment sample_runtime "sample_event ''/images/cat.jpg''",
       THEN conjunct1]
    by simp
  have 2: "validateRequestSignature sample_runtime signing_environment
      (sample_event ''/images/cat.jpg'') =
      Inl (ImageHandlerError BAD_REQUEST (Some ''AuthorizationQueryParametersError'')
             (Some ''Query-string requires the signature parameter.''))"
    using validateRequestSignature_cases
      [of signing_environment sample_runtime "sample_event ''/images/cat.jpg''",
       THEN conjunct2, THEN conjunct1]
    by simp
  have 3: "validateRequestSignature sample_runtime signing_environment (signed_event ?good)
      = Inr ()"
    using validateRequestSignature_cases
      [of signing_environment sample_runtime "signed_event ?good"
         "(\<lambda>name. None)(''signature'' \<mapsto> ?good)" ?good
         \<open>''{"signing-key":"secret"}''\<close> ?secret "''secret''",
       THEN conjunct2, THEN conjunct2, THEN mp, THEN conjunct1]
    by (simp add: parsed)
  have 4: "validateRequestSignature sample_runtime signing_environment (signed_event ?bad)
      = Inl (ImageHandlerError FORBIDDEN (Some ''SignatureDoesNotMatch'')
               (Some ''Signature does not match.''))"
    using validateRequestSignature_cases
      [of signing_environment sample_runtime "signed_event ?bad"
         "(\<lambda>name. None)(''signature'' \<mapsto> ?bad)" ?bad
         \<open>''{"signing-key":"secret"}''\<close> ?secret "''secret''",
       THEN conjunct2, THEN conjunct2, THEN mp, THEN conjunct1]
    by (simp add: parsed)
  have 5: "validateRequestSignature denied_secret_runtime signing_environment
      (signed_event ?good) =
      Inl (ImageHandlerError INTERNAL_SERVER_ERROR (Some ''SignatureValidationFailure'')
             (Some ''Signature validation failed.''))"
    using validateRequestSignature_cases
      [of signing_environment denied_secret_runtime "signed_event ?good"
         "(\<lambda>name. None)(''signature'' \<mapsto> ?good)" ?good _ _ _
         "ServiceError (Some ''AccessDeniedException'') (Some ''not authorized'')",
       THEN conjunct2, THEN conjunct2, THEN mp, THEN conjunct2, THEN conjunct1]
    by simp
  from 1 2 3 4 5 show ?thesis by simp
qed

text \<open>
  The claim as stated, with SignatureValidationFailure for every failure of the
  retrieval of the secret, fails: a rejection of the secret provider that carries the
  code SignatureDoesNotMatch passes the \<open>catch\<close> as it came, with neither the status
  nor the message of the handler's own error.
\<close>

theorem validateRequestSignature_rethrown_counterexample:
  "getSecret mismatching_secret_runtime (SECRETS_MANAGER signing_environment) =
     Inl (ServiceError (Some ''SignatureDoesNotMatch'') (Some ''request signature rejected'')) \<and>
   validateRequestSignature mismatching_secret_runtime signing_environment
     (signed_event ''997a86039518e34eb4d0147b1581b2b6b4166c256753014ca1f94c0f1509a93d'')
     = Inl (ServiceError (Some ''SignatureDoesNotMatch'') (Some ''request signature rejected'')) \<and>
   validateRequestSignature mismatching_secret_runtime signing_environment
     (signed_event ''997a86039518e34eb4d0147b1581b2b6b4166c256753014ca1f94c0f1509a93d'')
     \<noteq> Inl (ImageHandlerError INTERNAL_SERVER_ERROR (Some ''SignatureValidationFailure'')
              (Some ''Signature validation failed.''))"
proof -
  have s: "getSecret mismatching_secret_runtime =
      (\<lambda>id. Inl (ServiceError (Some ''SignatureDoesNotMatch'')
                    (Some ''request signature rejected'')))"
    by (simp add: mismatching_secret_runtime_def)
  have c: "check_signature mismatching_secret_runtime signing_environment (signed_event g) g =
      Inl (ServiceError (Some ''SignatureDoesNotMatch'') (Some ''request signature rejected''))"
    for g
    by (simp add: check_signature_def s)
  show ?thesis
    by (simp add: s validateRequestSignature_def c)
qed


subsection \<open>The quality key\<close>

lemma filter_update_other:
  "filter (\<lambda>p. fst p \<noteq> f) (AList.update f v kvs) = filter (\<lambda>p. fst p \<noteq> f) kvs"
  by (induction kvs) auto

lemma filter_delete_update:
  "filter (\<lambda>p. fst p \<noteq> f) (AList.delete q (AList.update f v kvs)) =
     filter (\<lambda>p. fst p \<noteq> q \<and> fst p \<noteq> f) kvs"
proof -
  have "filter (\<lambda>p. fst p \<noteq> f) (AList.delete q (AList.update f v kvs)) =
      filter (\<lambda>p. fst p \<noteq> q) (filter (\<lambda>p. fst p \<noteq> f) (AList.update f v kvs))"
    by (auto simp: AList.delete_eq intro: filter_cong)
  then show ?thesis
    by (auto simp: filter_update_other intro: filter_cong)
qed

lemma map_of_delete_update:
  "q \<noteq> f \<Longrightarrow>
     map_of (AList.delete q (AList.update f v kvs)) = (map_of kvs)(q := None, f \<mapsto> v)"
  by (auto simp: AList.delete_conv' AList.update_conv')

lemma find_filter:
  "find P xs = (case filter P xs of [] \<Rightarrow> None | x # rest \<Rightarrow> Some x)"
  by (induction xs) auto

lemma find_in_set: "find P xs = Some x \<Longrightarrow> x \<in> set xs"
  by (induction xs) (auto split: if_splits)

lemma acceptedValues_list:
  "acceptedValues = [''jpeg'', ''png'', ''webp'', ''tiff'', ''heif'']"
  by (simp add: acceptedValues_def JPEG_def PNG_def WEBP_def TIFF_def HEIF_def)

lemma fix_quality_unfixed:
  assumes "truthy (outputFormat info)"
    and "\<not> (requestType info \<in> {THUMBOR, CUSTOM} \<and>
            (\<exists>f\<in>set acceptedValues. outputFormat info = Some (JStr f)))"
  shows "fix_quality rt info =
     Inr (info\<lparr>contentType := Some (''image/'' @ template rt (outputFormat info))\<rparr>)"
proof (cases "outputFormat info")
  case None
  with assms show ?thesis by simp
next
  case (Some j)
  with assms show ?thesis
    by (cases j) (auto simp: fix_quality_def Let_def)
qed

lemma fix_quality_fixed:
  assumes "requestType info \<in> {THUMBOR, CUSTOM}" "f \<in> set acceptedValues"
    and "outputFormat info = Some (JStr f)" "edits info = Some (JObj kvs)"
  shows "fix_quality rt info =
     Inr (info\<lparr>contentType := Some (''image/'' @ f),
               edits := Some (JObj
                 (case find (\<lambda>k. k \<in> set acceptedValues) (map fst kvs) of
                    None \<Rightarrow> kvs
                  | Some q \<Rightarrow>
                      if q = f then kvs
                      else (case map_of kvs q of
                              None \<Rightarrow> kvs
                            | Some v \<Rightarrow> AList.delete q (AList.update f v kvs))))\<rparr>)"
proof -
  have f: "f \<noteq> []" using assms(2) by (auto simp: acceptedValues_list)
  let ?info1 = "info\<lparr>contentType := Some (''image/'' @ f)\<rparr>"
  have same: "?info1\<lparr>edits := Some (JObj kvs)\<rparr> = ?info1"
    using assms(4) by simp
  show ?thesis
  proof (cases "filter (\<lambda>k. k \<in> set acceptedValues) (map fst kvs)")
    case Nil
    with assms f same show ?thesis
      by (simp add: fix_quality_def Let_def find_filter)
  next
    case (Cons q rest)
    then have "q \<in> set (filter (\<lambda>k. k \<in> set acceptedValues) (map fst kvs))" by simp
    then have q: "q \<in> set acceptedValues" by simp
    then have "q \<noteq> []" by (auto simp: acceptedValues_list)
    with assms f same Cons show ?thesis
      by (auto simp: fix_quality_def Let_def find_filter split: option.splits)
  qed
qed

text \<open>
  Claim C8, as amended. When the request has an output format, the content type becomes
  \<open>image/\<close> followed by the format, and the quality key is fixed only for the Thumbor and
  Custom request types and only when the output format is one of jpeg, png, webp, tiff
  and heif. Then the first key of the edits that is one of these five names is looked
  at: if there is none, or if it is the output format, the edits stay as they are;
  otherwise this one key is removed and its value is stored under the output format,
  in the place of the value that the edits may already hold under the output format.
  The entries under every key other than these two keep their values and their order.
  In all other cases the edits are not touched.
\<close>

theorem fix_quality_rename:
  "(\<not> truthy (outputFormat info) \<longrightarrow> fix_quality rt info = Inr info) \<and>
   (truthy (outputFormat info) \<and>
    \<not> (requestType info \<in> {THUMBOR, CUSTOM} \<and>
       (\<exists>f\<in>set [''jpeg'', ''png'', ''webp'', ''tiff'', ''heif'']. outputFormat info = Some (JStr f))) \<longrightarrow>
      fix_quality rt info =
        Inr (info\<lparr>contentType := Some (''image/'' @ template rt (outputFormat info))\<rparr>)) \<and>
   (requestType info \<in> {THUMBOR, CUSTOM} \<and>
    f \<in> set [''jpeg'', ''png'', ''webp'', ''tiff'', ''heif''] \<and>
    outputFormat info = Some (JStr f) \<and> edits info = Some (JObj kvs) \<longrightarrow>
      (\<exists>kvs'. fix_quality rt info =
                Inr (info\<lparr>contentType := Some (''image/'' @ f), edits := Some (JObj kvs')\<rparr>) \<and>
         (case find (\<lambda>k. k \<in> set [''jpeg'', ''png'', ''webp'', ''tiff'', ''heif'']) (map fst kvs) of
            None \<Rightarrow> kvs' = kvs
          | Some q \<Rightarrow>
              if q = f then kvs' = kvs
              else (\<exists>v. map_of kvs q = Some v \<and>
                      map_of kvs' = (map_of kvs)(q := None, f \<mapsto> v) \<and>
                      filter (\<lambda>p. fst p \<noteq> f) kvs' =
                        filter (\<lambda>p. fst p \<noteq> q \<and> fst p \<noteq> f) kvs))))"
proof (intro conjI impI)
  show "fix_quality rt info = Inr info" if "\<not> truthy (outputFormat info)"
    using that by (simp add: fix_quality_def)
next
  assume "truthy (outputFormat info) \<and>
    \<not> (requestType info \<in> {THUMBOR, CUSTOM} \<and>
       (\<exists>f\<in>set [''jpeg'', ''png'', ''webp'', ''tiff'', ''heif'']. outputFormat info = Some (JStr f)))"
  then show "fix_quality rt info =
        Inr (info\<lparr>contentType := Some (''image/'' @ template rt (outputFormat info))\<rparr>)"
    using fix_quality_unfixed [of info rt] unfolding acceptedValues_list by blast
next
  assume a: "requestType info \<in> {THUMBOR, CUSTOM} \<and>
    f \<in> set [''jpeg'', ''png'', ''webp'', ''tiff'', ''heif''] \<and>
    outputFormat info = Some (JStr f) \<and> edits info = Some (JObj kvs)"
  let ?accepted = "\<lambda>k. k \<in> set [''jpeg'', ''png'', ''webp'', ''tiff'', ''heif'']"
  let ?kvs' = "case find ?accepted (map fst kvs) of
                 None \<Rightarrow> kvs
               | Some q \<Rightarrow>
                   if q = f then kvs
                   else (case map_of kvs q of
                           None \<Rightarrow> kvs
                         | Some v \<Rightarrow> AList.delete q (AList.update f v kvs))"
  from a have result: "fix_quality rt info =
      Inr (info\<lparr>contentType := Some (''image/'' @ f), edits := Some (JObj ?kvs')\<rparr>)"
    using fix_quality_fixed [of info f kvs rt] unfolding acceptedValues_list by simp
  have "case find ?accepted (map fst kvs) of
            None \<Rightarrow> ?kvs' = kvs
          | Some q \<Rightarrow>
              if q = f then ?kvs' = kvs
              else (\<exists>v. map_of kvs q = Some v \<and>
                      map_of ?kvs' = (map_of kvs)(q := None, f \<mapsto> v) \<and>
                      filter (\<lambda>p. fst p \<noteq> f) ?kvs' =
                        filter (\<lambda>p. fst p \<noteq> q \<and> fst p \<noteq> f) kvs)"
  proof (cases "find ?accepted (map fst kvs)")
    case None
    then show ?thesis by simp
  next
    case (Some q)
    then have "q \<in> set (map fst kvs)"
      by (rule find_in_set)
    then obtain v where v: "map_of kvs q = Some v"
      by (cases "map_of kvs q") (auto simp: map_of_eq_None_iff)
    show ?thesis
    proof (cases "q = f")
      case True
      with Some show ?thesis by simp
    next
      case False
      with Some v show ?thesis
        by (simp add: map_of_delete_update filter_delete_update)
    qed
  qed
  with result show "\<exists>kvs'. fix_quality rt info =
                Inr (info\<lparr>contentType := Some (''image/'' @ f), edits := Some (JObj kvs')\<rparr>) \<and>
         (case find ?accepted (map fst kvs) of
            None \<Rightarrow> kvs' = kvs
          | Some q \<Rightarrow>
              if q = f then kvs' = kvs
              else (\<exists>v. map_of kvs q = Some v \<and>
                      map_of kvs' = (map_of kvs)(q := None, f \<mapsto> v) \<and>
                      filter (\<lambda>p. fst p \<noteq> f) kvs' =
                        filter (\<lambda>p. fst p \<noteq> q \<and> fst p \<noteq> f) kvs))"
    by blast
qed

theorem fix_quality_rename_witness:
  "fix_quality sample_runtime quality_request =
     Inr (quality_request
            \<lparr>contentType := Some ''image/webp'',
             edits := Some (JObj [(''resize'', JObj [(''width'', JNum (Finite 100))]),
                                  (''grayscale'', JBool True),
                                  (''webp'', JObj [(''quality'', JNum (Finite 80))])])\<rparr>) \<and>
   fix_quality sample_runtime (quality_request\<lparr>requestType := DEFAULT\<rparr>) =
     Inr (quality_request\<lparr>requestType := DEFAULT, contentType := Some ''image/webp''\<rparr>) \<and>
   fix_quality sample_runtime (quality_request\<lparr>outputFormat := None\<rparr>) =
     Inr (quality_request\<lparr>outputFormat := None\<rparr>)"
proof -
  let ?kvs = "[(''resize'', JObj [(''width'', JNum (Finite 100))]),
               (''jpeg'', JObj [(''quality'', JNum (Finite 80))]),
               (''grayscale'', JBool True)]"
  have sel: "requestType quality_request = THUMBOR"
    "outputFormat quality_request = Some (JStr ''webp'')"
    "edits quality_request = Some (JObj ?kvs)"
    by (simp_all add: quality_request_def)
  have 1: "fix_quality sample_runtime quality_request =
     Inr (quality_request
            \<lparr>contentType := Some ''image/webp'',
             edits := Some (JObj [(''resize'', JObj [(''width'', JNum (Finite 100))]),
                                  (''grayscale'', JBool True),
                                  (''webp'', JObj [(''quality'', JNum (Finite 80))])])\<rparr>)"
  proof -
    from fix_quality_rename [of quality_request sample_runtime "''webp''" ?kvs,
        THEN conjunct2, THEN conjunct2]
    obtain kvs' where r: "fix_quality sample_runtime quality_request =
        Inr (quality_request\<lparr>contentType := Some (''image/'' @ ''webp''),
                              edits := Some (JObj kvs')\<rparr>)"
      and m: "map_of kvs' = (map_of ?kvs)(''jpeg'' := None,
                 ''webp'' \<mapsto> JObj [(''quality'', JNum (Finite 80))])"
      and o: "filter (\<lambda>p. fst p \<noteq> ''webp'') kvs' =
                filter (\<lambda>p. fst p \<noteq> ''jpeg'' \<and> fst p \<noteq> ''webp'') ?kvs"
      by (auto simp: sel)
    have "fix_quality sample_runtime quality_request =
        Inr (quality_request\<lparr>contentType := Some ''image/webp'',
               edits := Some (JObj (AList.delete ''jpeg''
                 (AList.update ''webp'' (JObj [(''quality'', JNum (Finite 80))]) ?kvs)))\<rparr>)"
      by (simp add: fix_quality_fixed [of quality_request "''webp''" ?kvs] sel
          acceptedValues_list AList.delete_eq)
    then show ?thesis by (simp add: AList.delete_eq)
  qed
  have 2: "fix_quality sample_runtime (quality_request\<lparr>requestType := DEFAULT\<rparr>) =
     Inr (quality_request\<lparr>requestType := DEFAULT, contentType := Some ''image/webp''\<rparr>)"
    using fix_quality_rename [of "quality_request\<lparr>requestType := DEFAULT\<rparr>" sample_runtime,
        THEN conjunct2, THEN conjunct1]
    by (simp add: sel)
  have 3: "fix_quality sample_runtime (quality_request\<lparr>outputFormat := None\<rparr>) =
     Inr (quality_request\<lparr>outputFormat := None\<rparr>)"
    using fix_quality_rename [of "quality_request\<lparr>outputFormat := None\<rparr>" sample_runtime,
        THEN conjunct1]
    by simp
  from 1 2 3 show ?thesis by simp
qed

text \<open>
  The claim as stated, with every other entry unchanged, fails when the edits already
  hold an entry under the output format: of the edits flip, png (quality 90), rotate and
  webp (quality 50) with the output format webp, the entry of webp is lost, its key
  getting the value of png.
\<close>

theorem fix_quality_overwrite_counterexample:
  "requestType overwriting_request = THUMBOR \<and>
   outputFormat overwriting_request = Some (JStr ''webp'') \<and>
   edits overwriting_request =
     Some (JObj [(''flip'', JBool True),
                 (''png'', JObj [(''quality'', JNum (Finite 90))]),
                 (''rotate'', JNum (Finite 90)),
                 (''webp'', JObj [(''quality'', JNum (Finite 50))])]) \<and>
   fix_quality sample_runtime overwriting_request =
     Inr (overwriting_request
            \<lparr>contentType := Some ''image/webp'',
             edits := Some (JObj [(''flip'', JBool True),
                                  (''rotate'', JNum (Finite 90)),
                                  (''webp'', JObj [(''quality'', JNum (Finite 90))])])\<rparr>)"
proof -
  let ?kvs = "[(''flip'', JBool True),
               (''png'', JObj [(''quality'', JNum (Finite 90))]),
               (''rotate'', JNum (Finite 90)),
               (''webp'', JObj [(''quality'', JNum (Finite 50))])]"
  have sel: "requestType overwriting_request = THUMBOR"
    "outputFormat overwriting_request = Some (JStr ''webp'')"
    "edits overwriting_request = Some (JObj ?kvs)"
    by (simp_all add: overwriting_request_def quality_request_def)
  have "fix_quality sample_runtime overwriting_request =
        Inr (overwriting_request\<lparr>contentType := Some ''image/webp'',
               edits := Some (JObj (AList.delete ''png''
                 (AList.update ''webp'' (JObj [(''quality'', JNum (Finite 90))]) ?kvs)))\<rparr>)"
    by (simp add: fix_quality_fixed [of overwriting_request "''webp''" ?kvs] sel
        acceptedValues_list AList.delete_eq)
  then show ?thesis by (simp add: AList.delete_eq sel)
qed


subsection \<open>The stages of \<open>setup\<close>\<close>

lemma retrieve_Inr:
  assumes "retrieve rt env ev = (Inr info, fetched)"
  obtains t k b k' ed original h where
    "locate rt env ev = Inr (t, k, b)" "probed_key rt b k = Inr k'"
    "parseImageEdits rt ev (Some t) = Inr ed" "getOriginalImage rt 1 b k' = Inr original"
    "parseImageHeaders rt ev (Some t) = Inr h"
    "info = \<lparr> requestType = t, key = k', bucket = b, edits = ed,
              responseHeaders = h, outputFormat = None,
              contentType = Some (oi_contentType original),
              expires = oi_expires original,
              lastModified = oi_lastModified original,
              cacheControl = Some (oi_cacheControl original),
              originalImage = Some (oi_originalImage original),
              reductionEffort = None \<rparr>"
    "fetched = [(b, k), (b, k')]"
proof -
  from assms obtain t k b where l: "locate rt env ev = Inr (t, k, b)"
    by (cases "locate rt env ev") (auto simp: retrieve_def)
  from assms l obtain k' where p: "probed_key rt b k = Inr k'"
    by (cases "probed_key rt b k") (auto simp: retrieve_def)
  from assms l p obtain ed where e: "parseImageEdits rt ev (Some t) = Inr ed"
    by (cases "parseImageEdits rt ev (Some t)") (auto simp: retrieve_def)
  from assms l p e have rest:
    "and_then (getOriginalImage rt 1 b k') (\<lambda>original.
       and_then (parseImageHeaders rt ev (Some t)) (\<lambda>h.
         Inr \<lparr> requestType = t, key = k', bucket = b, edits = ed,
               responseHeaders = h, outputFormat = None,
               contentType = Some (oi_contentType original),
               expires = oi_expires original,
               lastModified = oi_lastModified original,
               cacheControl = Some (oi_cacheControl original),
               originalImage = Some (oi_originalImage original),
               reductionEffort = None \<rparr>)) = Inr info"
    and f: "fetched = [(b, k), (b, k')]"
    by (simp_all add: retrieve_def)
  from rest obtain original where o: "getOriginalImage rt 1 b k' = Inr original"
    and rest2: "and_then (parseImageHeaders rt ev (Some t)) (\<lambda>h.
         Inr \<lparr> requestType = t, key = k', bucket = b, edits = ed,
               responseHeaders = h, outputFormat = None,
               contentType = Some (oi_contentType original),
               expires = oi_expires original,
               lastModified = oi_lastModified original,
               cacheControl = Some (oi_cacheControl original),
               originalImage = Some (oi_originalImage original),
               reductionEffort = None \<rparr>) = Inr info"
    by (auto simp: and_then_Inr)
  from rest2 obtain h where h: "parseImageHeaders rt ev (Some t) = Inr h"
    and i: "info = \<lparr> requestType = t, key = k', bucket = b, edits = ed,
               responseHeaders = h, outputFormat = None,
               contentType = Some (oi_contentType original),
               expires = oi_expires original,
               lastModified = oi_lastModified original,
               cacheControl = Some (oi_cacheControl original),
               originalImage = Some (oi_originalImage original),
               reductionEffort = None \<rparr>"
    by (auto simp: and_then_Inr)
  from l p e o h i f show ?thesis by (rule that)
qed

lemma setup_request_Inr:
  assumes "setup_request rt env ev = (Inr final, fetched)"
  obtains info negotiated where
    "retrieve rt env ev = (Inr info, fetched)"
    "negotiate rt env ev (force_png rt info) = Inr negotiated"
    "fix_quality rt negotiated = Inr final"
proof -
  obtain r f where rf: "retrieve rt env ev = (r, f)" by (cases "retrieve rt env ev")
  with assms obtain info where r: "r = Inr info" and f: "f = fetched"
    by (cases r) (auto simp: setup_request_def)
  with assms rf obtain negotiated where
    "negotiate rt env ev (force_png rt info) = Inr negotiated"
    "fix_quality rt negotiated = Inr final"
    by (auto simp: setup_request_def and_then_Inr)
  with rf r f show ?thesis by (auto intro: that)
qed

lemma setup_request_retrieved:
  "retrieve rt env ev = (Inr info, fetched) \<Longrightarrow>
     setup_request rt env ev =
       (and_then (negotiate rt env ev (force_png rt info)) (fix_quality rt), fetched)"
  by (simp add: setup_request_def)

lemma force_png_reductionEffort [simp]:
  "reductionEffort (force_png rt info) = reductionEffort info"
  by (simp add: force_png_def split: option.splits)

lemma force_png_requestType [simp]:
  "requestType (force_png rt info) = requestType info"
  by (simp add: force_png_def split: option.splits)

lemma force_png_edits [simp]:
  "edits (force_png rt info) = edits info"
  by (simp add: force_png_def split: option.splits)

lemma force_png_contentType [simp]:
  "contentType (force_png rt info) = contentType info"
  by (simp add: force_png_def split: option.splits)

lemma fix_quality_keys:
  assumes "requestType info \<in> {THUMBOR, CUSTOM}" "f \<in> set acceptedValues"
    and "outputFormat info = Some (JStr f)"
  shows "fix_quality rt info =
     and_then (Object_keys (edits info)) (\<lambda>keys.
       case filter (\<lambda>k. k \<in> set acceptedValues) keys of
         [] \<Rightarrow> Inr (info\<lparr>contentType := Some (''image/'' @ f)\<rparr>)
       | q # others \<Rightarrow>
           if q \<noteq> [] \<and> q \<noteq> f
           then Inr (info\<lparr>contentType := Some (''image/'' @ f),
                          edits := map_option (\<lambda>e. rename_key e q f) (edits info)\<rparr>)
           else Inr (info\<lparr>contentType := Some (''image/'' @ f)\<rparr>))"
proof -
  have f: "f \<noteq> []" using assms(2) by (auto simp: acceptedValues_list)
  show ?thesis
  proof (cases "Object_keys (edits info)")
    case (Inl e)
    with assms f show ?thesis by (auto simp: fix_quality_def Let_def)
  next
    case (Inr keys)
    show ?thesis
    proof (cases "filter (\<lambda>k. k \<in> set acceptedValues) keys")
      case Nil
      with Inr assms f show ?thesis by (auto simp: fix_quality_def Let_def)
    next
      case (Cons q others)
      with Inr assms f show ?thesis by (auto simp: fix_quality_def Let_def)
    qed
  qed
qed

lemma fix_quality_frame:
  assumes "fix_quality rt info = Inr final"
  shows "\<exists>c e. final = info\<lparr>contentType := c, edits := e\<rparr>"
proof (cases "truthy (outputFormat info)")
  case False
  with assms have "final = info"
    by (simp add: fix_quality_def)
  then have "final = info\<lparr>contentType := contentType info, edits := edits info\<rparr>"
    by simp
  then show ?thesis by blast
next
  case True
  show ?thesis
  proof (cases "requestType info \<in> {THUMBOR, CUSTOM} \<and>
      (\<exists>f\<in>set acceptedValues. outputFormat info = Some (JStr f))")
    case False
    with True assms fix_quality_unfixed [of info rt]
    have "final = info\<lparr>contentType := Some (''image/'' @ template rt (outputFormat info))\<rparr>"
      by simp
    then have "final = info\<lparr>contentType := Some (''image/'' @ template rt (outputFormat info)),
                       edits := edits info\<rparr>"
      by simp
    then show ?thesis by blast
  next
    case True
    then obtain f where f: "outputFormat info = Some (JStr f)" "f \<in> set acceptedValues"
      and t: "requestType info \<in> {THUMBOR, CUSTOM}" by auto
    note k = fix_quality_keys [OF t f(2) f(1), of rt]
    from assms k have h: "and_then (Object_keys (edits info)) (\<lambda>keys.
       case filter (\<lambda>k. k \<in> set acceptedValues) keys of
         [] \<Rightarrow> Inr (info\<lparr>contentType := Some (''image/'' @ f)\<rparr>)
       | q # others \<Rightarrow>
           if q \<noteq> [] \<and> q \<noteq> f
           then Inr (info\<lparr>contentType := Some (''image/'' @ f),
                          edits := map_option (\<lambda>e. rename_key e q f) (edits info)\<rparr>)
           else Inr (info\<lparr>contentType := Some (''image/'' @ f)\<rparr>)) = Inr final"
      by simp
    show ?thesis
    proof (cases "Object_keys (edits info)")
      case (Inl e)
      with h show ?thesis by simp
    next
      case (Inr keys)
      show ?thesis
      proof (cases "filter (\<lambda>k. k \<in> set acceptedValues) keys")
        case Nil
        with h Inr have "final = info\<lparr>contentType := Some (''image/'' @ f)\<rparr>"
          by simp
        then have "final = info\<lparr>contentType := Some (''image/'' @ f), edits := edits info\<rparr>"
          by simp
        then show ?thesis by blast
      next
        case (Cons q others)
        show ?thesis
        proof (cases "q \<noteq> [] \<and> q \<noteq> f")
          case True
          with h Inr Cons have "final = info\<lparr>contentType := Some (''image/'' @ f),
              edits := map_option (\<lambda>e. rename_key e q f) (edits info)\<rparr>"
            by simp
          then show ?thesis by blast
        next
          case False
          with h Inr Cons have "final = info\<lparr>contentType := Some (''image/'' @ f)\<rparr>"
            by auto
          then have "final = info\<lparr>contentType := Some (''image/'' @ f), edits := edits info\<rparr>"
            by simp
          then show ?thesis by blast
        qed
      qed
    qed
  qed
qed

lemma fix_quality_reductionEffort:
  assumes "fix_quality rt info = Inr final"
  shows "reductionEffort final = reductionEffort info"
  using fix_quality_frame [OF assms] by auto

lemma fix_quality_outputFormat:
  assumes "fix_quality rt info = Inr final"
  shows "outputFormat final = outputFormat info"
  using fix_quality_frame [OF assms] by auto


subsection \<open>The reduction effort\<close>

lemma Math_trunc_Finite:
  "Math_trunc (Finite r) = Finite (of_int (if 0 \<le> r then \<lfloor>r\<rfloor> else \<lceil>r\<rceil>))"
  by (simp add: Math_trunc_def)

lemma Math_trunc_integer:
  "Math_trunc x = Finite r \<Longrightarrow> \<exists>n::int. r = of_int n"
  by (cases x) (auto simp: Math_trunc_def)

lemma checked_reductionEffort_eq:
  "checked_reductionEffort rt v =
     (if \<exists>n::int. Math_trunc (to_number rt v) = Finite (of_int n) \<and> 0 \<le> n \<and> n \<le> 6
      then Math_trunc (to_number rt v) else Finite 4)"
proof (cases "Math_trunc (to_number rt v)")
  case (Finite r)
  then obtain n :: int where n: "r = of_int n" by (auto dest: Math_trunc_integer)
  show ?thesis
  proof (cases "0 \<le> n \<and> n \<le> 6")
    case True
    with Finite n have "\<exists>m::int. Math_trunc (to_number rt v) = Finite (of_int m) \<and> 0 \<le> m \<and> m \<le> 6"
      by blast
    moreover from True Finite n have "checked_reductionEffort rt v = Math_trunc (to_number rt v)"
      by (simp add: checked_reductionEffort_def Let_def)
    ultimately show ?thesis by (simp only: if_P)
  next
    case False
    with Finite n have "\<not> (\<exists>m::int. Math_trunc (to_number rt v) = Finite (of_int m) \<and> 0 \<le> m \<and> m \<le> 6)"
      by auto
    moreover from False Finite n have "checked_reductionEffort rt v = Finite 4"
      by (auto simp: checked_reductionEffort_def Let_def DEFAULT_REDUCTION_EFFORT_def)
    ultimately show ?thesis by (simp only: if_not_P if_False)
  qed
qed (simp_all add: checked_reductionEffort_def Let_def DEFAULT_REDUCTION_EFFORT_def)

lemma checked_reductionEffort_range:
  "\<exists>n::int. checked_reductionEffort rt v = Finite (of_int n) \<and> 0 \<le> n \<and> n \<le> 6"
proof (cases "\<exists>n::int. Math_trunc (to_number rt v) = Finite (of_int n) \<and> 0 \<le> n \<and> n \<le> 6")
  case True
  then show ?thesis by (auto simp: checked_reductionEffort_eq)
next
  case False
  then have "checked_reductionEffort rt v = Finite 4"
    by (simp only: checked_reductionEffort_eq if_not_P if_False)
  then have "checked_reductionEffort rt v = Finite (of_int 4)"
    by simp
  then show ?thesis by (intro exI [of _ 4]) simp
qed

lemma webp_effort_given:
  assumes "candidate = Some (JStr WEBP)" "requestType info = DEFAULT"
    and "decodeRequest rt ev = Inr decoded"
    and "get_prop rt (Some decoded) ''reductionEffort'' = Inr (Some v)"
  shows "webp_effort rt ev candidate info =
     Inr (info\<lparr>reductionEffort := Some (checked_reductionEffort rt v)\<rparr>)"
  using assms by (simp add: webp_effort_def)

lemma and_then_InrE:
  assumes "and_then m f = Inr y"
  obtains x where "m = Inr x" "f x = Inr y"
  using assms by (cases m) auto

lemma webp_effort_frame:
  assumes "webp_effort rt ev candidate info = Inr info1"
  shows "info1 = info \<or> (\<exists>v. info1 = info\<lparr>reductionEffort := Some (checked_reductionEffort rt v)\<rparr>)"
proof (cases "candidate = Some (JStr WEBP) \<and> requestType info = DEFAULT")
  case False
  with assms show ?thesis by (auto simp: webp_effort_def)
next
  case True
  with assms have h: "and_then (decodeRequest rt ev) (\<lambda>decoded.
        and_then (get_prop rt (Some decoded) ''reductionEffort'') (\<lambda>given.
          case given of
            None \<Rightarrow> Inr info
          | Some v \<Rightarrow> Inr (info\<lparr>reductionEffort := Some (checked_reductionEffort rt v)\<rparr>)))
      = Inr info1"
    by (simp add: webp_effort_def)
  show ?thesis
  proof (cases "decodeRequest rt ev")
    case (Inl e)
    with h show ?thesis by simp
  next
    case decoded: (Inr decoded)
    show ?thesis
    proof (cases "get_prop rt (Some decoded) ''reductionEffort''")
      case (Inl e)
      with h decoded show ?thesis by simp
    next
      case (Inr given)
      with h decoded show ?thesis by (cases given) auto
    qed
  qed
qed

lemma negotiate_InrE:
  assumes "negotiate rt env ev info = Inr negotiated"
  obtains (skipped) "should_negotiate rt info = Inr False" "negotiated = info"
  | (ran) candidate info1 where "should_negotiate rt info = Inr True"
      "getOutputFormat rt env ev (Some (requestType info)) = Inr candidate"
      "webp_effort rt ev candidate info = Inr info1"
      "negotiated =
         (if truthy (edits_toFormat rt info1) then info1\<lparr>outputFormat := edits_toFormat rt info1\<rparr>
          else if truthy candidate then info1\<lparr>outputFormat := candidate\<rparr>
          else info1)"
proof (cases "should_negotiate rt info")
  case (Inl e)
  with assms show ?thesis by (simp add: negotiate_def)
next
  case go: (Inr go)
  show ?thesis
  proof (cases go)
    case False
    with assms go show ?thesis by (intro skipped) (simp_all add: negotiate_def)
  next
    case True
    show ?thesis
    proof (cases "getOutputFormat rt env ev (Some (requestType info))")
      case (Inl e)
      with assms go True show ?thesis by (simp add: negotiate_def)
    next
      case candidate: (Inr candidate)
      show ?thesis
      proof (cases "webp_effort rt ev candidate info")
        case (Inl e)
        with assms go True candidate show ?thesis by (simp add: negotiate_def)
      next
        case (Inr info1)
        with assms go True candidate have "negotiated =
         (if truthy (edits_toFormat rt info1) then info1\<lparr>outputFormat := edits_toFormat rt info1\<rparr>
          else if truthy candidate then info1\<lparr>outputFormat := candidate\<rparr>
          else info1)"
          by (auto simp: negotiate_def split: if_splits)
        with go True candidate Inr show ?thesis by (intro ran) simp_all
      qed
    qed
  qed
qed

lemma negotiate_frame:
  assumes "negotiate rt env ev info = Inr negotiated"
  shows "\<exists>info1 fmt. (info1 = info \<or>
             (\<exists>v. info1 = info\<lparr>reductionEffort := Some (checked_reductionEffort rt v)\<rparr>)) \<and>
           negotiated = info1\<lparr>outputFormat := fmt\<rparr>"
  using assms
proof (cases rule: negotiate_InrE)
  case skipped
  then have "negotiated = info\<lparr>outputFormat := outputFormat info\<rparr>" by simp
  then show ?thesis by blast
next
  case (ran candidate info1)
  have "\<exists>fmt. negotiated = info1\<lparr>outputFormat := fmt\<rparr>"
  proof (cases "truthy (edits_toFormat rt info1) \<or> truthy candidate")
    case True
    with ran(4) show ?thesis by auto
  next
    case False
    with ran(4) have "negotiated = info1" by simp
    then have "negotiated = info1\<lparr>outputFormat := outputFormat info1\<rparr>" by simp
    then show ?thesis by blast
  qed
  with webp_effort_frame [OF ran(3)] show ?thesis by blast
qed

lemma negotiate_reductionEffort:
  assumes "negotiate rt env ev info = Inr negotiated"
  shows "reductionEffort negotiated = reductionEffort info \<or>
         (\<exists>v. reductionEffort negotiated = Some (checked_reductionEffort rt v))"
  using negotiate_frame [OF assms] by auto

lemma negotiate_webp_effort:
  assumes "should_negotiate rt info = Inr True"
    and "getOutputFormat rt env ev (Some (requestType info)) = Inr (Some (JStr WEBP))"
    and "requestType info = DEFAULT" "decodeRequest rt ev = Inr decoded"
    and "get_prop rt (Some decoded) ''reductionEffort'' = Inr (Some v)"
  shows "\<exists>negotiated. negotiate rt env ev info = Inr negotiated \<and>
           reductionEffort negotiated = Some (checked_reductionEffort rt v)"
proof -
  let ?info1 = "info\<lparr>reductionEffort := Some (checked_reductionEffort rt v)\<rparr>"
  have w: "webp_effort rt ev (Some (JStr WEBP)) info = Inr ?info1"
    using assms(3-5) by (rule webp_effort_given [OF refl])
  have "negotiate rt env ev info =
      Inr (if truthy (edits_toFormat rt ?info1)
           then ?info1\<lparr>outputFormat := edits_toFormat rt ?info1\<rparr>
           else ?info1\<lparr>outputFormat := Some (JStr WEBP)\<rparr>)"
    using assms(1,2) w by (simp add: negotiate_def WEBP_def)
  then show ?thesis by simp
qed

lemma retrieve_fresh:
  assumes "retrieve rt env ev = (Inr info, fetched)"
  shows "reductionEffort info = None" "outputFormat info = None"
  using assms by (auto elim!: retrieve_Inr)

text \<open>
  Claim C9. When the candidate format is WebP, the request type is Default and the
  decoded request has a \<open>reductionEffort\<close>, the reduction effort stored is the
  truncation of that value to an integer when this is a number from 0 to 6, and 4
  otherwise; and wherever \<open>setup\<close> returns a request, its reduction effort is unset or
  an integer from 0 to 6. The truncation of a number drops its fraction (towards zero).
\<close>

theorem reductionEffort_checked:
  "checked_reductionEffort rt v =
     (if \<exists>n::int. Math_trunc (to_number rt v) = Finite (of_int n) \<and> 0 \<le> n \<and> n \<le> 6
      then Math_trunc (to_number rt v) else Finite 4) \<and>
   Math_trunc (to_number rt (JNum (Finite r))) =
     Finite (of_int (if 0 \<le> r then \<lfloor>r\<rfloor> else \<lceil>r\<rceil>)) \<and>
   (should_negotiate rt info = Inr True \<and>
    getOutputFormat rt env ev (Some (requestType info)) = Inr (Some (JStr ''webp'')) \<and>
    requestType info = DEFAULT \<and> decodeRequest rt ev = Inr decoded \<and>
    get_prop rt (Some decoded) ''reductionEffort'' = Inr (Some v) \<longrightarrow>
      (\<exists>negotiated. negotiate rt env ev info = Inr negotiated \<and>
         reductionEffort negotiated = Some (checked_reductionEffort rt v))) \<and>
   (retrieve rt env ev = (Inr info, fetched) \<and>
    should_negotiate rt (force_png rt info) = Inr True \<and>
    getOutputFormat rt env ev (Some (requestType info)) = Inr (Some (JStr ''webp'')) \<and>
    requestType info = DEFAULT \<and> decodeRequest rt ev = Inr decoded \<and>
    get_prop rt (Some decoded) ''reductionEffort'' = Inr (Some v) \<and>
    setup_request rt env ev = (Inr final, fetched) \<longrightarrow>
      reductionEffort final = Some (checked_reductionEffort rt v)) \<and>
   (setup_request rt env ev = (Inr final, fetched) \<longrightarrow>
      reductionEffort final = None \<or>
      (\<exists>n::int. reductionEffort final = Some (Finite (of_int n)) \<and> 0 \<le> n \<and> n \<le> 6))"
proof (intro conjI impI)
  show "checked_reductionEffort rt v =
     (if \<exists>n::int. Math_trunc (to_number rt v) = Finite (of_int n) \<and> 0 \<le> n \<and> n \<le> 6
      then Math_trunc (to_number rt v) else Finite 4)"
    by (rule checked_reductionEffort_eq)
next
  show "Math_trunc (to_number rt (JNum (Finite r))) =
     Finite (of_int (if 0 \<le> r then \<lfloor>r\<rfloor> else \<lceil>r\<rceil>))"
    by (simp add: to_number_def Math_trunc_Finite)
next
  assume "should_negotiate rt info = Inr True \<and>
    getOutputFormat rt env ev (Some (requestType info)) = Inr (Some (JStr ''webp'')) \<and>
    requestType info = DEFAULT \<and> decodeRequest rt ev = Inr decoded \<and>
    get_prop rt (Some decoded) ''reductionEffort'' = Inr (Some v)"
  then show "\<exists>negotiated. negotiate rt env ev info = Inr negotiated \<and>
         reductionEffort negotiated = Some (checked_reductionEffort rt v)"
    using negotiate_webp_effort [of rt info env ev decoded v] by (auto simp: WEBP_def)
next
  assume a: "retrieve rt env ev = (Inr info, fetched) \<and>
    should_negotiate rt (force_png rt info) = Inr True \<and>
    getOutputFormat rt env ev (Some (requestType info)) = Inr (Some (JStr ''webp'')) \<and>
    requestType info = DEFAULT \<and> decodeRequest rt ev = Inr decoded \<and>
    get_prop rt (Some decoded) ''reductionEffort'' = Inr (Some v) \<and>
    setup_request rt env ev = (Inr final, fetched)"
  then obtain negotiated where n: "negotiate rt env ev (force_png rt info) = Inr negotiated"
    "reductionEffort negotiated = Some (checked_reductionEffort rt v)"
    using negotiate_webp_effort [of rt "force_png rt info" env ev decoded v]
    by (auto simp: WEBP_def)
  from a have r: "retrieve rt env ev = (Inr info, fetched)"
    and s: "setup_request rt env ev = (Inr final, fetched)"
    by simp_all
  from r have "setup_request rt env ev =
      (and_then (negotiate rt env ev (force_png rt info)) (fix_quality rt), fetched)"
    by (rule setup_request_retrieved)
  with s n have "fix_quality rt negotiated = Inr final" by simp
  with n show "reductionEffort final = Some (checked_reductionEffort rt v)"
    by (simp add: fix_quality_reductionEffort)
next
  assume "setup_request rt env ev = (Inr final, fetched)"
  then obtain info negotiated where
    r: "retrieve rt env ev = (Inr info, fetched)"
    and n: "negotiate rt env ev (force_png rt info) = Inr negotiated"
    and f: "fix_quality rt negotiated = Inr final"
    by (rule setup_request_Inr)
  from negotiate_reductionEffort [OF n] retrieve_fresh(1) [OF r]
  have "reductionEffort negotiated = None \<or>
      (\<exists>v. reductionEffort negotiated = Some (checked_reductionEffort rt v))"
    by simp
  with fix_quality_reductionEffort [OF f]
  show "reductionEffort final = None \<or>
      (\<exists>n::int. reductionEffort final = Some (Finite (of_int n)) \<and> 0 \<le> n \<and> n \<le> 6)"
    using checked_reductionEffort_range [of rt] by metis
qed

lemma webp_environment_sel [simp]:
  "SOURCE_BUCKETS webp_environment = Some ''images-bucket, photos-bucket''"
  "DEFAULT_FALLBACK_IMAGE_BUCKET webp_environment = None"
  "REWRITE_MATCH_PATTERN webp_environment = None"
  "REWRITE_SUBSTITUTION webp_environment = None"
  "AUTO_WEBP webp_environment = Some ''Yes''"
  "ENABLE_SIGNATURE webp_environment = None"
  by (simp_all add: webp_environment_def)

lemma svg_event_sel [simp]:
  "path svg_event =
     ''/eyJrZXkiOiJpbWFnZXMvYS5zdmciLCJlZGl0cyI6eyJmbGlwIjp0cnVlfSwicmVkdWN0aW9uRWZmb3J0IjozLjd9''"
  "headers svg_event ''Accept'' = Some ''image/webp,*/*''"
  "queryStringParameters svg_event = None"
  by (simp_all add: svg_event_def)

lemma svg_decoded:
  "decodeRequest sample_runtime svg_event =
     Inr (JObj [(''key'', JStr ''images/a.svg''), (''edits'', JObj [(''flip'', JBool True)]),
                (''reductionEffort'', JNum (Finite (37 / 10)))])"
  by (simp add: decodeRequest_def sample_decodings_def sample_documents_def)

lemma svg_source_buckets:
  "getAllowedSourceBuckets webp_environment = Inr [''images-bucket'', ''photos-bucket'']"
  by (simp add: getAllowedSourceBuckets_def is_whitespace_def)

lemma svg_located:
  "locate sample_runtime webp_environment svg_event =
     Inr (DEFAULT, Some (JStr ''images/a.svg''), Some ''images-bucket'')"
proof -
  have t: "parseRequestType sample_runtime webp_environment svg_event = Inr DEFAULT"
    by (simp add: parseRequestType_def svg_decoded matchDefault_test_def base64_char_def)
  have k: "parseImageKey sample_runtime webp_environment svg_event (Some DEFAULT) =
      Inr (Some (JStr ''images/a.svg''))"
    by (simp add: parseImageKey_def svg_decoded)
  have b: "parseImageBucket sample_runtime webp_environment svg_event (Some DEFAULT)
      (Some (JStr ''images/a.svg'')) = Inr (Some ''images-bucket'')"
    by (simp add: parseImageBucket_def svg_source_buckets svg_decoded checkImageBucket_def)
  show ?thesis
    by (simp add: locate_def validateRequestSignature_def t k b)
qed

lemma svg_retrieved:
  "retrieve sample_runtime webp_environment svg_event =
     (Inr (svg_descriptor\<lparr>outputFormat := None, contentType := Some ''image/svg+xml'',
                           reductionEffort := None\<rparr>),
      [(Some ''images-bucket'', Some (JStr ''images/a.svg'')),
       (Some ''images-bucket'', Some (JStr ''images/a.svg''))])"
proof -
  have p: "probed_key sample_runtime (Some ''images-bucket'') (Some (JStr ''images/a.svg'')) =
      Inr (Some (JStr ''images/a.svg''))"
    by (simp add: probed_key_def sample_store_def)
  have e: "parseImageEdits sample_runtime svg_event (Some DEFAULT) =
      Inr (Some (JObj [(''flip'', JBool True)]))"
    by (simp add: parseImageEdits_def svg_decoded)
  have o: "getOriginalImage sample_runtime n (Some ''images-bucket'') (Some (JStr ''images/a.svg'')) =
      Inr \<lparr> oi_contentType = ''image/svg+xml'', oi_expires = None, oi_lastModified = None,
            oi_cacheControl = ''max-age=31536000,public'',
            oi_originalImage = [0x3C, 0x73, 0x76, 0x67] \<rparr>"
    for n by (simp add: getOriginalImage_def sample_store_def svg_object_def)
  have h: "parseImageHeaders sample_runtime svg_event (Some DEFAULT) = Inr None"
    by (simp add: parseImageHeaders_def svg_decoded)
  show ?thesis
    by (simp add: retrieve_def svg_located p e o h svg_descriptor_def)
qed

lemma svg_negotiated:
  "negotiate sample_runtime webp_environment svg_event
     (force_png sample_runtime
        (svg_descriptor\<lparr>outputFormat := None, contentType := Some ''image/svg+xml'',
                          reductionEffort := None\<rparr>)) =
     Inr (svg_descriptor\<lparr>contentType := Some ''image/svg+xml''\<rparr>)"
  by (simp add: negotiate_def should_negotiate_def getOutputFormat_def webp_effort_def
      svg_decoded edits_toFormat_def force_png_def svg_descriptor_def WEBP_def PNG_def
      checked_reductionEffort_def to_number_def Math_trunc_def Let_def)

lemma svg_setup:
  "setup_request sample_runtime webp_environment svg_event =
     (Inr svg_descriptor,
      [(Some ''images-bucket'', Some (JStr ''images/a.svg'')),
       (Some ''images-bucket'', Some (JStr ''images/a.svg''))])"
proof -
  have q: "fix_quality sample_runtime (svg_descriptor\<lparr>contentType := Some ''image/svg+xml''\<rparr>)
      = Inr svg_descriptor"
    by (simp add: fix_quality_def svg_descriptor_def)
  show ?thesis
    by (simp add: setup_request_def svg_retrieved svg_negotiated q)
qed

theorem reductionEffort_checked_witness:
  "setup_request sample_runtime webp_environment svg_event =
     (Inr svg_descriptor,
      [(Some ''images-bucket'', Some (JStr ''images/a.svg'')),
       (Some ''images-bucket'', Some (JStr ''images/a.svg''))]) \<and>
   reductionEffort svg_descriptor = Some (Finite 3) \<and>
   checked_reductionEffort sample_runtime (JNum (Finite (37 / 10))) = Finite 3 \<and>
   checked_reductionEffort sample_runtime (JNum (Finite 9)) = Finite 4 \<and>
   checked_reductionEffort sample_runtime (JNum (Finite (- (1 / 2)))) = Finite 0 \<and>
   checked_reductionEffort sample_runtime (JStr ''high'') = Finite 4 \<and>
   (\<exists>n::int. reductionEffort svg_descriptor = Some (Finite (of_int n)) \<and> 0 \<le> n \<and> n \<le> 6)"
proof -
  note claim = reductionEffort_checked [where rt = sample_runtime and env = webp_environment
      and ev = svg_event and final = svg_descriptor
      and fetched = "[(Some ''images-bucket'', Some (JStr ''images/a.svg'')),
       (Some ''images-bucket'', Some (JStr ''images/a.svg''))]"]
  have last: "\<exists>n::int. reductionEffort svg_descriptor = Some (Finite (of_int n)) \<and> 0 \<le> n \<and> n \<le> 6"
    using claim [THEN conjunct2, THEN conjunct2, THEN conjunct2, THEN conjunct2, rule_format,
        OF svg_setup]
    by (simp add: svg_descriptor_def)
  have t: "Math_trunc (to_number sample_runtime (JNum (Finite (37 / 10)))) = Finite 3"
    "Math_trunc (to_number sample_runtime (JNum (Finite 9))) = Finite 9"
    "Math_trunc (to_number sample_runtime (JNum (Finite (- (1 / 2))))) = Finite 0"
    "Math_trunc (to_number sample_runtime (JStr ''high'')) = NaN"
    by (simp_all add: to_number_def Math_trunc_def ceiling_eq_iff)
  have 1: "checked_reductionEffort sample_runtime (JNum (Finite (37 / 10))) = Finite 3"
    using reductionEffort_checked [of sample_runtime "JNum (Finite (37 / 10))", THEN conjunct1]
    by (simp add: t exI [of _ 3])
  have 2: "checked_reductionEffort sample_runtime (JNum (Finite 9)) = Finite 4"
    using reductionEffort_checked [of sample_runtime "JNum (Finite 9)", THEN conjunct1]
    by (simp add: t)
  have 3: "checked_reductionEffort sample_runtime (JNum (Finite (- (1 / 2)))) = Finite 0"
    using reductionEffort_checked [of sample_runtime "JNum (Finite (- (1 / 2)))", THEN conjunct1]
    by (simp add: t exI [of _ 0])
  have 4: "checked_reductionEffort sample_runtime (JStr ''high'') = Finite 4"
    using reductionEffort_checked [of sample_runtime "JStr ''high''", THEN conjunct1]
    by (simp add: t)
  from svg_setup last 1 2 3 4 show ?thesis
    by (simp add: svg_descriptor_def)
qed


subsection \<open>An SVG original\<close>

lemma truthy_not_null: "truthy (Some e) \<Longrightarrow> e \<noteq> JNull"
  by auto

lemma get_prop_lookup: "e \<noteq> JNull \<Longrightarrow> get_prop rt (Some e) k = Inr (lookup rt e k)"
  by (cases e) simp_all

lemma Object_keys_own: "e \<noteq> JNull \<Longrightarrow> Object_keys (Some e) = Inr (own_keys e)"
  by (cases e) simp_all

lemma fix_quality_succeeds:
  assumes "truthy (outputFormat info)" "edits info = Some e" "e \<noteq> JNull"
  shows "\<exists>final. fix_quality rt info = Inr final \<and> outputFormat final = outputFormat info \<and>
           contentType final = Some (''image/'' @ template rt (outputFormat info))"
proof (cases "requestType info \<in> {THUMBOR, CUSTOM} \<and>
      (\<exists>f\<in>set acceptedValues. outputFormat info = Some (JStr f))")
  case False
  with assms(1) fix_quality_unfixed [of info rt] show ?thesis by simp
next
  case True
  then obtain f where f: "outputFormat info = Some (JStr f)" "f \<in> set acceptedValues"
    and t: "requestType info \<in> {THUMBOR, CUSTOM}" by auto
  note k = fix_quality_keys [OF t f(2) f(1), of rt]
  have keys: "Object_keys (edits info) = Inr (own_keys e)"
    using assms(2,3) by (simp add: Object_keys_own)
  show ?thesis
  proof (cases "filter (\<lambda>k. k \<in> set acceptedValues) (own_keys e)")
    case Nil
    with k keys f show ?thesis by simp
  next
    case (Cons q others)
    with k keys f show ?thesis by (cases "q \<noteq> [] \<and> q \<noteq> f") simp_all
  qed
qed

lemma locate_default_decoded:
  assumes "locate rt env ev = Inr (DEFAULT, k, b)"
  shows "\<exists>decoded. decodeRequest rt ev = Inr decoded \<and> decoded \<noteq> JNull"
proof -
  from assms have "\<exists>u. validateRequestSignature rt env ev = Inr u"
    by (cases "validateRequestSignature rt env ev") (simp_all add: locate_def)
  with assms have 1: "and_then (parseRequestType rt env ev) (\<lambda>t.
     and_then (parseImageKey rt env ev (Some t)) (\<lambda>k.
     and_then (parseImageBucket rt env ev (Some t) k) (\<lambda>b.
       Inr (t, k, b)))) = Inr (DEFAULT, k, b)"
    by (auto simp: locate_def)
  show ?thesis
  proof (cases "parseRequestType rt env ev")
    case (Inl e)
    with 1 show ?thesis by simp
  next
    case t: (Inr t)
    show ?thesis
    proof (cases "parseImageKey rt env ev (Some t)")
      case (Inl e)
      with 1 t show ?thesis by simp
    next
      case k': (Inr k')
      show ?thesis
      proof (cases "parseImageBucket rt env ev (Some t) k'")
        case (Inl e)
        with 1 t k' show ?thesis by simp
      next
        case (Inr b')
        with 1 t k' have "t = DEFAULT" by simp
        with k' have "and_then (decodeRequest rt ev)
            (\<lambda>decoded. get_prop rt (Some decoded) ''key'') = Inr k'"
          by (simp add: parseImageKey_def)
        then show ?thesis
          by (cases "decodeRequest rt ev") (auto simp: get_prop_Inr)
      qed
    qed
  qed
qed

lemma webp_effort_succeeds:
  assumes "requestType info = DEFAULT \<longrightarrow>
             (\<exists>decoded. decodeRequest rt ev = Inr decoded \<and> decoded \<noteq> JNull)"
  shows "\<exists>info1. webp_effort rt ev candidate info = Inr info1 \<and> edits info1 = edits info \<and>
           requestType info1 = requestType info \<and> outputFormat info1 = outputFormat info"
proof (cases "candidate = Some (JStr WEBP) \<and> requestType info = DEFAULT")
  case False
  then show ?thesis by (auto simp: webp_effort_def)
next
  case True
  with assms obtain decoded where d: "decodeRequest rt ev = Inr decoded" "decoded \<noteq> JNull"
    by auto
  show ?thesis
  proof (cases "lookup rt decoded ''reductionEffort''")
    case None
    with True d show ?thesis by (simp add: webp_effort_def get_prop_lookup)
  next
    case (Some v)
    with True d show ?thesis by (simp add: webp_effort_def get_prop_lookup)
  qed
qed

text \<open>
  Claim C10. When the original fetched is an SVG, the edits have at least one key and
  there is no \<open>toFormat\<close> edit, the output format is first set to PNG; the format is
  still negotiated, because an output format is now set; so with automatic WebP
  enabled and an \<open>Accept\<close> header that includes \<open>image/webp\<close>, \<open>setup\<close> returns a request
  whose output format is WebP, not PNG.
\<close>

theorem svg_output_webp:
  assumes "retrieve rt env ev = (Inr info, fetched)"
    and "contentType info = Some ''image/svg+xml''"
    and "edits info = Some e" "truthy (Some e)" "own_keys e \<noteq> []"
    and "\<not> truthy (lookup rt e ''toFormat'')"
    and "AUTO_WEBP env = Some ''Yes''" "headers ev ''Accept'' = Some accept"
    and "str_includes accept ''image/webp''"
  shows "outputFormat (force_png rt info) = Some (JStr ''png'') \<and>
         should_negotiate rt (force_png rt info) = Inr True \<and>
         (\<exists>final. setup_request rt env ev = (Inr final, fetched) \<and>
            outputFormat final = Some (JStr ''webp'') \<and>
            contentType final = Some ''image/webp'')"
proof -
  have null: "e \<noteq> JNull" using assms(4) by (rule truthy_not_null)
  have png: "force_png rt info = info\<lparr>outputFormat := Some (JStr PNG)\<rparr>"
    using assms(2-6) by (simp add: force_png_def)
  let ?png = "info\<lparr>outputFormat := Some (JStr PNG)\<rparr>"
  have go: "should_negotiate rt ?png = Inr True"
    using assms(2,3) null by (simp add: should_negotiate_def get_prop_lookup PNG_def)
  have "accept \<noteq> []" using assms(9) by (cases accept) simp_all
  with assms(7-9) have candidate:
    "getOutputFormat rt env ev (Some (requestType ?png)) = Inr (Some (JStr WEBP))"
    by (simp add: getOutputFormat_def)
  have "requestType ?png = DEFAULT \<longrightarrow>
      (\<exists>decoded. decodeRequest rt ev = Inr decoded \<and> decoded \<noteq> JNull)"
  proof
    assume "requestType ?png = DEFAULT"
    with assms(1) obtain k b where "locate rt env ev = Inr (DEFAULT, k, b)"
      by (auto elim!: retrieve_Inr)
    then show "\<exists>decoded. decodeRequest rt ev = Inr decoded \<and> decoded \<noteq> JNull"
      by (rule locate_default_decoded)
  qed
  then obtain info1 where w: "webp_effort rt ev (Some (JStr WEBP)) ?png = Inr info1"
    and same: "edits info1 = edits ?png" "requestType info1 = requestType ?png"
    using webp_effort_succeeds [of ?png rt ev "Some (JStr WEBP)"] by auto
  from same assms(3,4,6) have "\<not> truthy (edits_toFormat rt info1)"
    by (simp add: edits_toFormat_def)
  with go candidate w have n: "negotiate rt env ev ?png =
      Inr (info1\<lparr>outputFormat := Some (JStr WEBP)\<rparr>)"
    by (simp add: negotiate_def WEBP_def)
  let ?webp = "info1\<lparr>outputFormat := Some (JStr WEBP)\<rparr>"
  from same assms(3) null obtain final where f: "fix_quality rt ?webp = Inr final"
    "outputFormat final = outputFormat ?webp"
    "contentType final = Some (''image/'' @ template rt (outputFormat ?webp))"
    using fix_quality_succeeds [of ?webp e rt] by (auto simp: WEBP_def)
  from assms(1) have "setup_request rt env ev =
      (and_then (negotiate rt env ev (force_png rt info)) (fix_quality rt), fetched)"
    by (rule setup_request_retrieved)
  with png n f have "setup_request rt env ev = (Inr final, fetched)" by simp
  with f have "\<exists>final. setup_request rt env ev = (Inr final, fetched) \<and>
            outputFormat final = Some (JStr ''webp'') \<and>
            contentType final = Some ''image/webp''"
    by (simp add: WEBP_def)
  with png go show ?thesis by (simp add: PNG_def)
qed

theorem svg_output_webp_witness:
  "retrieve sample_runtime webp_environment svg_event =
     (Inr (svg_descriptor\<lparr>outputFormat := None, contentType := Some ''image/svg+xml'',
                           reductionEffort := None\<rparr>),
      [(Some ''images-bucket'', Some (JStr ''images/a.svg'')),
       (Some ''images-bucket'', Some (JStr ''images/a.svg''))]) \<and>
   outputFormat (force_png sample_runtime
     (svg_descriptor\<lparr>outputFormat := None, contentType := Some ''image/svg+xml'',
                       reductionEffort := None\<rparr>)) = Some (JStr ''png'') \<and>
   (\<exists>final. setup_request sample_runtime webp_environment svg_event =
              (Inr final, [(Some ''images-bucket'', Some (JStr ''images/a.svg'')),
                           (Some ''images-bucket'', Some (JStr ''images/a.svg''))]) \<and>
      outputFormat final = Some (JStr ''webp'') \<and> contentType final = Some ''image/webp'')"
proof -
  let ?info = "svg_descriptor\<lparr>outputFormat := None, contentType := Some ''image/svg+xml'',
                           reductionEffort := None\<rparr>"
  have c: "contentType ?info = Some ''image/svg+xml''" by simp
  have e: "edits ?info = Some (JObj [(''flip'', JBool True)])"
    by (simp add: svg_descriptor_def)
  have t: "truthy (Some (JObj [(''flip'', JBool True)]))" by simp
  have k: "own_keys (JObj [(''flip'', JBool True)]) \<noteq> []" by simp
  have f: "\<not> truthy (lookup sample_runtime (JObj [(''flip'', JBool True)]) ''toFormat'')"
    by simp
  have a: "AUTO_WEBP webp_environment = Some ''Yes''" by simp
  have h: "headers svg_event ''Accept'' = Some ''image/webp,*/*''" by simp
  have i: "str_includes ''image/webp,*/*'' ''image/webp''" by simp
  from svg_output_webp [OF svg_retrieved c e t k f a h i] svg_retrieved
  show ?thesis by simp
qed


subsection \<open>The fetches\<close>

lemma directory_prefix:
  "substring0 s (lastIndexOf s c + 1) = rev (dropWhile (\<lambda>x. x \<noteq> c) (rev s))"
proof (cases "c \<in> set s")
  case False
  then have "dropWhile (\<lambda>x. x \<noteq> c) (rev s) = []" by auto
  with False show ?thesis by (simp add: substring0_def lastIndexOf_def)
next
  case True
  let ?n = "length (takeWhile (\<lambda>x. x \<noteq> c) (rev s))"
  have le: "?n \<le> length s"
    using length_takeWhile_le [of "\<lambda>x. x \<noteq> c" "rev s"] by simp
  have "rev (dropWhile (\<lambda>x. x \<noteq> c) (rev s)) = rev (drop ?n (rev s))"
    by (simp add: dropWhile_eq_drop)
  also have "\<dots> = take (length s - ?n) s"
    by (simp add: rev_drop)
  finally have "rev (dropWhile (\<lambda>x. x \<noteq> c) (rev s)) = take (length s - ?n) s" .
  moreover have "nat (int (length s) - 1 - int ?n + 1) = length s - ?n"
    using le by simp
  ultimately show ?thesis
    using True by (simp add: substring0_def lastIndexOf_def)
qed

lemma parseImageBucket_key_string:
  assumes "parseImageBucket rt env ev t k = Inr b"
  shows "\<exists>s. k = Some (JStr s)"
proof (cases "getAllowedSourceBuckets env")
  case (Inl e)
  with assms show ?thesis by (simp add: parseImageBucket_def)
next
  case (Inr sourceBuckets)
  with assms show ?thesis
    by (auto simp: parseImageBucket_def split: option.splits json.splits)
qed

lemma locate_key_string:
  assumes "locate rt env ev = Inr (t, k, b)"
  shows "\<exists>s. k = Some (JStr s)"
proof (cases "validateRequestSignature rt env ev")
  case (Inl e)
  with assms show ?thesis by (simp add: locate_def)
next
  case u: (Inr u)
  show ?thesis
  proof (cases "parseRequestType rt env ev")
    case (Inl e)
    with assms u show ?thesis by (simp add: locate_def)
  next
    case t': (Inr t')
    show ?thesis
    proof (cases "parseImageKey rt env ev (Some t')")
      case (Inl e)
      with assms u t' show ?thesis by (simp add: locate_def)
    next
      case k': (Inr k')
      show ?thesis
      proof (cases "parseImageBucket rt env ev (Some t') k'")
        case (Inl e)
        with assms u t' k' show ?thesis by (simp add: locate_def)
      next
        case (Inr b')
        with assms u t' k' have "k' = k" by (simp add: locate_def)
        with Inr show ?thesis by (auto dest: parseImageBucket_key_string)
      qed
    qed
  qed
qed

lemma getOriginalImage_failed:
  assumes "getObject rt n b k = Inl error"
  shows "getOriginalImage rt n b k =
     Inl (if error_code error = Some ''NoSuchKey''
          then ImageHandlerError NOT_FOUND (Some ''NoSuchKey'') (Some (msg_no_such_key rt k))
          else ImageHandlerError INTERNAL_SERVER_ERROR (error_code error) (error_message error))"
  using assms by (simp add: getOriginalImage_def fetch_error_def)

lemma retrieve_located:
  assumes "locate rt env ev = Inr (t, k, b)" "probed_key rt b k = Inr k'"
  shows "retrieve rt env ev =
     (case parseImageEdits rt ev (Some t) of
        Inl e \<Rightarrow> (Inl e, [(b, k)])
      | Inr ed \<Rightarrow>
          (and_then (getOriginalImage rt 1 b k') (\<lambda>original.
           and_then (parseImageHeaders rt ev (Some t)) (\<lambda>h.
             Inr \<lparr> requestType = t, key = k', bucket = b, edits = ed,
                   responseHeaders = h, outputFormat = None,
                   contentType = Some (oi_contentType original),
                   expires = oi_expires original,
                   lastModified = oi_lastModified original,
                   cacheControl = Some (oi_cacheControl original),
                   originalImage = Some (oi_originalImage original),
                   reductionEffort = None \<rparr>)),
           [(b, k), (b, k')]))"
  using assms by (simp add: retrieve_def)

lemma setup_request_fetched: "snd (setup_request rt env ev) = snd (retrieve rt env ev)"
proof (cases "retrieve rt env ev")
  case (Pair r fetched)
  then show ?thesis by (cases r) (simp_all add: setup_request_def)
qed

lemma setup_request_failed:
  "fst (retrieve rt env ev) = Inl e \<Longrightarrow> fst (setup_request rt env ev) = Inl e"
  by (cases "retrieve rt env ev") (simp add: setup_request_def)

lemma retrieve_fetched_le: "length (snd (retrieve rt env ev)) \<le> 2"
proof (cases "locate rt env ev")
  case (Inl e)
  then show ?thesis by (simp add: retrieve_def)
next
  case (Inr located)
  obtain t k b where l: "located = (t, k, b)" by (cases located)
  show ?thesis
  proof (cases "probed_key rt b k")
    case (Inl e)
    with Inr l show ?thesis by (simp add: retrieve_def)
  next
    case k': (Inr k')
    with Inr l show ?thesis
      by (cases "parseImageEdits rt ev (Some t)") (simp_all add: retrieve_def)
  qed
qed

text \<open>
  Claim C3, as amended. \<open>setup\<close> asks the object store at most twice. The first
  request, for the key as parsed, is a trial whose result is dropped: exactly when it
  fails, for whatever reason and not only because the object is missing, the key is
  replaced by its part up to and including the last slash followed by
  \<open>default.jpg\<close>, the bucket staying as it is. The original is then fetched once, by
  \<open>getOriginalImage\<close>, at the key that results, also when the trial succeeded. A failure
  of that fetch with the code NoSuchKey is returned as a not-found error, any other
  failure of it as an internal server error with the code and the message of the
  failure.
\<close>

theorem fetch_default_image:
  "length (snd (setup_request rt env ev)) \<le> 2 \<and>
   (locate rt env ev = Inl failure \<longrightarrow> setup_request rt env ev = (Inl failure, [])) \<and>
   (locate rt env ev = Inr (t, k, b) \<longrightarrow>
      (\<exists>s k'. k = Some (JStr s) \<and>
         k' = (case getObject rt 0 b k of
                 Inr found \<Rightarrow> k
               | Inl error \<Rightarrow>
                   Some (JStr (rev (dropWhile (\<lambda>c. c \<noteq> CHR ''/'') (rev s)) @ ''default.jpg''))) \<and>
         (case parseImageEdits rt ev (Some t) of
            Inl error \<Rightarrow> setup_request rt env ev = (Inl error, [(b, k)])
          | Inr ed \<Rightarrow>
              snd (setup_request rt env ev) = [(b, k), (b, k')] \<and>
              (case getOriginalImage rt 1 b k' of
                 Inl error \<Rightarrow> fst (setup_request rt env ev) = Inl error
               | Inr original \<Rightarrow> True)))) \<and>
   (getObject rt n b k = Inl error \<longrightarrow>
      getOriginalImage rt n b k =
        Inl (if error_code error = Some ''NoSuchKey''
             then ImageHandlerError NOT_FOUND (Some ''NoSuchKey'') (Some (msg_no_such_key rt k))
             else ImageHandlerError INTERNAL_SERVER_ERROR (error_code error)
                    (error_message error)))"
proof (intro conjI impI)
  show "length (snd (setup_request rt env ev)) \<le> 2"
    by (simp add: setup_request_fetched retrieve_fetched_le)
next
  assume "locate rt env ev = Inl failure"
  then show "setup_request rt env ev = (Inl failure, [])"
    by (simp add: setup_request_def retrieve_def)
next
  assume l: "locate rt env ev = Inr (t, k, b)"
  then obtain s where s: "k = Some (JStr s)" by (auto dest: locate_key_string)
  let ?k' = "case getObject rt 0 b k of
                 Inr found \<Rightarrow> k
               | Inl error \<Rightarrow>
                   Some (JStr (rev (dropWhile (\<lambda>c. c \<noteq> CHR ''/'') (rev s)) @ ''default.jpg''))"
  have p: "probed_key rt b k = Inr ?k'"
    using s by (cases "getObject rt 0 b k")
      (simp_all add: probed_key_def default_key_def directory_prefix)
  note r = retrieve_located [OF l p]
  have "case parseImageEdits rt ev (Some t) of
            Inl error \<Rightarrow> setup_request rt env ev = (Inl error, [(b, k)])
          | Inr ed \<Rightarrow>
              snd (setup_request rt env ev) = [(b, k), (b, ?k')] \<and>
              (case getOriginalImage rt 1 b ?k' of
                 Inl error \<Rightarrow> fst (setup_request rt env ev) = Inl error
               | Inr original \<Rightarrow> True)"
  proof (cases "parseImageEdits rt ev (Some t)")
    case (Inl error)
    with r show ?thesis by (simp add: setup_request_def)
  next
    case ed: (Inr ed)
    with r have f: "snd (setup_request rt env ev) = [(b, k), (b, ?k')]"
      by (simp add: setup_request_fetched)
    show ?thesis
    proof (cases "getOriginalImage rt 1 b ?k'")
      case (Inl error)
      with r ed have "fst (retrieve rt env ev) = Inl error" by simp
      then have "fst (setup_request rt env ev) = Inl error" by (rule setup_request_failed)
      with ed f Inl show ?thesis by simp
    next
      case (Inr original)
      with ed f show ?thesis by simp
    qed
  qed
  with s show "\<exists>s k'. k = Some (JStr s) \<and>
         k' = (case getObject rt 0 b k of
                 Inr found \<Rightarrow> k
               | Inl error \<Rightarrow>
                   Some (JStr (rev (dropWhile (\<lambda>c. c \<noteq> CHR ''/'') (rev s)) @ ''default.jpg''))) \<and>
         (case parseImageEdits rt ev (Some t) of
            Inl error \<Rightarrow> setup_request rt env ev = (Inl error, [(b, k)])
          | Inr ed \<Rightarrow>
              snd (setup_request rt env ev) = [(b, k), (b, k')] \<and>
              (case getOriginalImage rt 1 b k' of
                 Inl error \<Rightarrow> fst (setup_request rt env ev) = Inl error
               | Inr original \<Rightarrow> True))"
    by blast
next
  assume "getObject rt n b k = Inl error"
  then show "getOriginalImage rt n b k =
        Inl (if error_code error = Some ''NoSuchKey''
             then ImageHandlerError NOT_FOUND (Some ''NoSuchKey'') (Some (msg_no_such_key rt k))
             else ImageHandlerError INTERNAL_SERVER_ERROR (error_code error)
                    (error_message error))"
    by (rule getOriginalImage_failed)
qed

lemma denied_store_runtime_sel [simp]:
  "base64_utf8 denied_store_runtime = base64_utf8 sample_runtime"
  "JSON_parse denied_store_runtime = JSON_parse sample_runtime"
  "matchThumbor_test denied_store_runtime = matchThumbor_test sample_runtime"
  "strip_edits denied_store_runtime = strip_edits sample_runtime"
  "decodeURIComponent denied_store_runtime = decodeURIComponent sample_runtime"
  "mapPathToEdits denied_store_runtime = mapPathToEdits sample_runtime"
  "toUTCString denied_store_runtime = toUTCString sample_runtime"
  by (simp_all add: denied_store_runtime_def)

lemma thumbor_located:
  assumes "rt = sample_runtime \<or> rt = denied_store_runtime"
  shows "locate rt sample_environment (sample_event ''/images/cat.jpg'') =
       Inr (THUMBOR, Some (JStr ''images/cat.jpg''), Some ''images-bucket'')"
    and "parseImageEdits rt (sample_event ''/images/cat.jpg'') (Some THUMBOR) = Inr (Some (JObj []))"
proof -
  have d: "decodeRequest rt (sample_event ''/images/cat.jpg'') =
      Inl (ImageHandlerError BAD_REQUEST (Some ''DecodeRequest::CannotDecodeRequest'')
             (Some msg_cannot_decode))"
    using assms
    by (elim disjE; simp add: decodeRequest_def sample_decodings_def sample_documents_def)
  have t: "parseRequestType rt sample_environment (sample_event ''/images/cat.jpg'') = Inr THUMBOR"
    using assms d by (elim disjE; simp add: parseRequestType_def)
  have k: "parseImageKey rt sample_environment (sample_event ''/images/cat.jpg'') (Some THUMBOR)
      = Inr (Some (JStr ''images/cat.jpg''))"
    using assms by (elim disjE; simp add: parseImageKey_def)
  have b: "parseImageBucket rt sample_environment (sample_event ''/images/cat.jpg'')
      (Some THUMBOR) (Some (JStr ''images/cat.jpg'')) = Inr (Some ''images-bucket'')"
    by (simp add: parseImageBucket_def sample_source_buckets checkImageBucket_def)
  show "locate rt sample_environment (sample_event ''/images/cat.jpg'') =
       Inr (THUMBOR, Some (JStr ''images/cat.jpg''), Some ''images-bucket'')"
    by (simp add: locate_def validateRequestSignature_def t k b)
  show "parseImageEdits rt (sample_event ''/images/cat.jpg'') (Some THUMBOR) = Inr (Some (JObj []))"
    using assms by (elim disjE; simp add: parseImageEdits_def)
qed

lemma denied_store [simp]:
  "getObject denied_store_runtime = (\<lambda>n b k.
        if k = Some (JStr ''images/cat.jpg'')
        then Inl (ServiceError (Some ''AccessDenied'') (Some ''Access Denied''))
        else sample_store n b k)"
  by (simp add: denied_store_runtime_def)

text \<open>
  The claim as stated fails in both directions. The first fetch of
  \<open>images/cat.jpg\<close> is refused with AccessDenied, which is not a missing object, and
  the key is rewritten to \<open>images/default.jpg\<close> all the same; and with a store that
  has the object the first fetch succeeds and the object is fetched a second time.
\<close>

theorem fetch_not_found_counterexample:
  "getObject denied_store_runtime 0 (Some ''images-bucket'') (Some (JStr ''images/cat.jpg'')) =
     Inl (ServiceError (Some ''AccessDenied'') (Some ''Access Denied'')) \<and>
   snd (setup_request denied_store_runtime sample_environment (sample_event ''/images/cat.jpg'')) =
     [(Some ''images-bucket'', Some (JStr ''images/cat.jpg'')),
      (Some ''images-bucket'', Some (JStr ''images/default.jpg''))] \<and>
   getObject sample_runtime 0 (Some ''images-bucket'') (Some (JStr ''images/cat.jpg'')) =
     Inr jpeg_object \<and>
   snd (setup_request sample_runtime sample_environment (sample_event ''/images/cat.jpg'')) =
     [(Some ''images-bucket'', Some (JStr ''images/cat.jpg'')),
      (Some ''images-bucket'', Some (JStr ''images/cat.jpg''))]"
proof -
  have l1: "locate denied_store_runtime sample_environment (sample_event ''/images/cat.jpg'') =
       Inr (THUMBOR, Some (JStr ''images/cat.jpg''), Some ''images-bucket'')"
    and e1: "parseImageEdits denied_store_runtime (sample_event ''/images/cat.jpg'')
       (Some THUMBOR) = Inr (Some (JObj []))"
    by (rule thumbor_located, simp)+
  have l2: "locate sample_runtime sample_environment (sample_event ''/images/cat.jpg'') =
       Inr (THUMBOR, Some (JStr ''images/cat.jpg''), Some ''images-bucket'')"
    and e2: "parseImageEdits sample_runtime (sample_event ''/images/cat.jpg'')
       (Some THUMBOR) = Inr (Some (JObj []))"
    by (rule thumbor_located, simp)+
  have p1: "probed_key denied_store_runtime (Some ''images-bucket'')
      (Some (JStr ''images/cat.jpg'')) = Inr (Some (JStr ''images/default.jpg''))"
    by (simp add: probed_key_def default_key_def substring0_def lastIndexOf_def)
  have p2: "probed_key sample_runtime (Some ''images-bucket'')
      (Some (JStr ''images/cat.jpg'')) = Inr (Some (JStr ''images/cat.jpg''))"
    by (simp add: probed_key_def sample_store_def)
  show ?thesis
    by (simp add: setup_request_fetched retrieve_located [OF l1 p1] retrieve_located [OF l2 p2]
        e1 e2 sample_store_def)
qed

theorem fetch_default_image_witness:
  "snd (setup_request denied_store_runtime sample_environment (sample_event ''/images/cat.jpg'')) =
     [(Some ''images-bucket'', Some (JStr ''images/cat.jpg'')),
      (Some ''images-bucket'', Some (JStr ''images/default.jpg''))] \<and>
   length (snd (setup_request denied_store_runtime sample_environment
                  (sample_event ''/images/cat.jpg''))) \<le> 2 \<and>
   getOriginalImage sample_runtime 1 (Some ''photos-bucket'') (Some (JStr ''photos/default.jpg'')) =
     Inl (ImageHandlerError NOT_FOUND (Some ''NoSuchKey'')
            (Some (msg_no_such_key sample_runtime (Some (JStr ''photos/default.jpg''))))) \<and>
   getOriginalImage denied_store_runtime 1 (Some ''images-bucket'')
       (Some (JStr ''images/cat.jpg'')) =
     Inl (ImageHandlerError INTERNAL_SERVER_ERROR (Some ''AccessDenied'') (Some ''Access Denied''))"
proof -
  let ?ev = "sample_event ''/images/cat.jpg''"
  have l: "locate denied_store_runtime sample_environment ?ev =
       Inr (THUMBOR, Some (JStr ''images/cat.jpg''), Some ''images-bucket'')"
    and e: "parseImageEdits denied_store_runtime ?ev (Some THUMBOR) = Inr (Some (JObj []))"
    by (rule thumbor_located, simp)+
  note claim = fetch_default_image [where rt = denied_store_runtime
      and env = sample_environment and ev = ?ev]
  from claim [where t = THUMBOR and k = "Some (JStr ''images/cat.jpg'')"
      and b = "Some ''images-bucket''", THEN conjunct2, THEN conjunct2, THEN conjunct1,
      rule_format, OF l]
  have 1: "snd (setup_request denied_store_runtime sample_environment ?ev) =
     [(Some ''images-bucket'', Some (JStr ''images/cat.jpg'')),
      (Some ''images-bucket'', Some (JStr ''images/default.jpg''))]"
    by (auto simp: e)
  have 2: "length (snd (setup_request denied_store_runtime sample_environment ?ev)) \<le> 2"
    using claim [THEN conjunct1] .
  have g3: "getObject sample_runtime 1 (Some ''photos-bucket'') (Some (JStr ''photos/default.jpg''))
      = Inl (ServiceError (Some ''NoSuchKey'') (Some ''The specified key does not exist.''))"
    by (simp add: sample_store_def)
  have 3: "getOriginalImage sample_runtime 1 (Some ''photos-bucket'')
      (Some (JStr ''photos/default.jpg'')) =
     Inl (ImageHandlerError NOT_FOUND (Some ''NoSuchKey'')
            (Some (msg_no_such_key sample_runtime (Some (JStr ''photos/default.jpg'')))))"
    using fetch_default_image [where rt = sample_runtime and n = 1
        and b = "Some ''photos-bucket''" and k = "Some (JStr ''photos/default.jpg'')",
        THEN conjunct2, THEN conjunct2, THEN conjunct2, rule_format, OF g3]
    by simp
  have g4: "getObject denied_store_runtime 1 (Some ''images-bucket'')
      (Some (JStr ''images/cat.jpg'')) =
      Inl (ServiceError (Some ''AccessDenied'') (Some ''Access Denied''))"
    by simp
  have 4: "getOriginalImage denied_store_runtime 1 (Some ''images-bucket'')
       (Some (JStr ''images/cat.jpg'')) =
     Inl (ImageHandlerError INTERNAL_SERVER_ERROR (Some ''AccessDenied'') (Some ''Access Denied''))"
    using fetch_default_image [where rt = denied_store_runtime and n = 1
        and b = "Some ''images-bucket''" and k = "Some (JStr ''images/cat.jpg'')",
        THEN conjunct2, THEN conjunct2, THEN conjunct2, rule_format, OF g4]
    by simp
  from 1 2 3 4 show ?thesis by simp
qed


end
